theory Spec2Isabelle
  imports Complex_Main
begin


section \<open>Exceptions\<close>

text \<open>
  Python exceptions are values, with the argument they were raised with;
  \<open>ToolAdapterError\<close> (tools/adapter.py) also carries \<open>tool_name\<close> and
  \<open>is_retryable\<close>. \<open>exn_str\<close> is \<open>str(e)\<close>: the argument, for a \<open>KeyError\<close>
  its \<open>repr\<close> (the argument in single quotes).
\<close>

datatype exn =
    ToolAdapterError string string bool
  | KeyError string
  | TypeError string
  | ValueError string
  | AttributeError string
  | OtherError string

fun exn_str :: "exn \<Rightarrow> string" where
  "exn_str (ToolAdapterError m _ _) = m"
| "exn_str (KeyError m) = CHR 0x27 # m @ [CHR 0x27]"
| "exn_str (TypeError m) = m"
| "exn_str (ValueError m) = m"
| "exn_str (AttributeError m) = m"
| "exn_str (OtherError m) = m"

section \<open>The builtin \<open>float\<close> on strings\<close>

text \<open>
  \<open>float(s)\<close> strips surrounding whitespace and accepts an optional sign followed by
  \<open>inf\<close>, \<open>infinity\<close>, \<open>nan\<close> (any case) or a decimal number with optional
  fraction and exponent, where single underscores may separate digits. Anything else
  raises \<open>ValueError\<close>, here \<open>None\<close>. The result is an IEEE 754 binary64 value:
  a finite double (a rational), the negative zero, an infinity or a NaN.
\<close>

datatype pyfloat = Finite rat | NegZero | PosInf | NegInf | NaN

text \<open>
  The characters (code points below 256) that \<open>float\<close> strips: the C whitespace
  9 to 13 and 32, and the two Unicode spaces 133 and 160, which the conversion turns
  into a blank before it strips. The separators 28 to 31 are not stripped.
\<close>

definition is_space :: "char \<Rightarrow> bool" where
  "is_space c = ((of_char c :: nat) \<in> {9, 10, 11, 12, 13, 32, 133, 160})"

definition strip :: "string \<Rightarrow> string" where
  "strip s = rev (dropWhile is_space (rev (dropWhile is_space s)))"

definition is_digit :: "char \<Rightarrow> bool" where
  "is_digit c = (48 \<le> (of_char c :: nat) \<and> (of_char c :: nat) \<le> 57)"

definition lower :: "char \<Rightarrow> char" where
  "lower c = (if 65 \<le> (of_char c :: nat) \<and> (of_char c :: nat) \<le> 90
              then char_of ((of_char c :: nat) + 32) else c)"

fun no_double_underscore :: "string \<Rightarrow> bool" where
  "no_double_underscore (a # b # cs) =
     (\<not> (a = CHR ''_'' \<and> b = CHR ''_'') \<and> no_double_underscore (b # cs))"
| "no_double_underscore _ = True"

definition is_digitpart :: "string \<Rightarrow> bool" where
  "is_digitpart s =
     (s \<noteq> [] \<and> list_all (\<lambda>c. is_digit c \<or> c = CHR ''_'') s \<and>
      hd s \<noteq> CHR ''_'' \<and> last s \<noteq> CHR ''_'' \<and> no_double_underscore s)"

definition digits_of :: "string \<Rightarrow> string" where
  "digits_of s = filter is_digit s"

definition nat_of_digits :: "string \<Rightarrow> nat" where
  "nat_of_digits s = foldl (\<lambda>a c. 10 * a + ((of_char c :: nat) - 48)) 0 s"

definition split_at :: "(char \<Rightarrow> bool) \<Rightarrow> string \<Rightarrow> string \<times> string option" where
  "split_at p s =
     (case dropWhile (\<lambda>c. \<not> p c) s of
        [] \<Rightarrow> (s, None)
      | _ # r \<Rightarrow> (takeWhile (\<lambda>c. \<not> p c) s, Some r))"

definition split_sign :: "string \<Rightarrow> bool \<times> string" where
  "split_sign s =
     (case s of
        c # r \<Rightarrow> (if c = CHR ''-'' then (True, r)
                  else if c = CHR ''+'' then (False, r) else (False, s))
      | [] \<Rightarrow> (False, s))"

definition parse_exponent :: "string option \<Rightarrow> int option" where
  "parse_exponent e =
     (case e of
        None \<Rightarrow> Some 0
      | Some t \<Rightarrow>
          (case split_sign t of (neg, d) \<Rightarrow>
             if is_digitpart d
             then Some ((if neg then -1 else 1) * int (nat_of_digits (digits_of d)))
             else None))"

definition parse_mantissa :: "string \<Rightarrow> (nat \<times> nat) option" where
  "parse_mantissa m =
     (case split_at (\<lambda>c. c = CHR ''.'') m of
        (ip, None) \<Rightarrow>
          (if is_digitpart ip then Some (nat_of_digits (digits_of ip), 0) else None)
      | (ip, Some fp) \<Rightarrow>
          (if (ip = [] \<or> is_digitpart ip) \<and> (fp = [] \<or> is_digitpart fp) \<and>
              \<not> (ip = [] \<and> fp = [])
           then Some (nat_of_digits (digits_of ip @ digits_of fp), length (digits_of fp))
           else None))"

definition pow10 :: "int \<Rightarrow> rat" where
  "pow10 e = (if 0 \<le> e then 10 ^ nat e else 1 / 10 ^ nat (- e))"

text \<open>
  Rounding to binary64, round-half-to-even. \<open>ilog2 a\<close> is the binary exponent of a
  positive rational \<open>a\<close>, the integer \<open>e\<close> with \<open>pow2 e \<le> a < pow2 (e + 1)\<close>. A
  magnitude with exponent \<open>e\<close> is rounded to a multiple of \<open>pow2 (e - 52)\<close> (53
  significant bits), below the normal range to a multiple of \<open>pow2 (- 1074)\<close>
  (subnormals, down to zero); a rounded magnitude of \<open>pow2 1024\<close> or more overflows
  to an infinity.
\<close>

definition pow2 :: "int \<Rightarrow> rat" where
  "pow2 e = (if 0 \<le> e then 2 ^ nat e else 1 / 2 ^ nat (- e))"

fun bit_length :: "nat \<Rightarrow> nat" where
  "bit_length n = (if n = 0 then 0 else Suc (bit_length (n div 2)))"

declare bit_length.simps [simp del]

definition ilog2 :: "rat \<Rightarrow> int" where
  "ilog2 a =
     (case quotient_of a of (p, q) \<Rightarrow>
        let e = int (bit_length (nat p)) - int (bit_length (nat q))
        in if pow2 e \<le> a then e else e - 1)"

definition round_half_even :: "rat \<Rightarrow> int" where
  "round_half_even x =
     (let f = \<lfloor>x\<rfloor>; d = x - of_int f
      in if d < 1 / 2 then f
         else if 1 / 2 < d then f + 1
         else if even f then f else f + 1)"

definition round_double :: "bool \<Rightarrow> rat \<Rightarrow> pyfloat" where
  "round_double neg a =
     (if a = 0 then (if neg then NegZero else Finite 0)
      else
        let e = ilog2 a;
            q = pow2 (max e (- 1022) - 52);
            v = of_int (round_half_even (a / q)) * q
        in if pow2 1024 \<le> v then (if neg then NegInf else PosInf)
           else if v = 0 then (if neg then NegZero else Finite 0)
           else Finite (if neg then - v else v))"

definition py_float :: "string \<Rightarrow> pyfloat option" where
  "py_float s =
     (case split_sign (strip s) of (neg, t) \<Rightarrow>
        if map lower t = ''inf'' \<or> map lower t = ''infinity''
        then Some (if neg then NegInf else PosInf)
        else if map lower t = ''nan'' then Some NaN
        else
          (case split_at (\<lambda>c. c = CHR ''e'' \<or> c = CHR ''E'') t of (m, e) \<Rightarrow>
             (case (parse_mantissa m, parse_exponent e) of
                (Some (n, k), Some x) \<Rightarrow>
                  Some (round_double neg (of_nat n * pow10 (x - int k)))
              | _ \<Rightarrow> None)))"

text \<open>
  \<open>scale v k\<close> is the float product \<open>v * k\<close> for a positive integer \<open>k\<close> (60 and
  3600 in the parser): the exact product of the two doubles, rounded.
\<close>

fun scale :: "pyfloat \<Rightarrow> rat \<Rightarrow> pyfloat" where
  "scale (Finite r) k = round_double (r < 0) (\<bar>r\<bar> * k)"
| "scale NegZero k = NegZero"
| "scale PosInf k = PosInf"
| "scale NegInf k = NegInf"
| "scale NaN k = NaN"

section \<open>The HTTP adapter's timeout parser (tools/http.py)\<close>

definition float_or_raise :: "string \<Rightarrow> exn + pyfloat" where
  "float_or_raise s =
     (case py_float s of
        None \<Rightarrow> Inl (ValueError ''could not convert string to float'')
      | Some v \<Rightarrow> Inr v)"

definition endswith :: "string \<Rightarrow> char \<Rightarrow> bool" where
  "endswith s c = (s \<noteq> [] \<and> last s = c)"

text \<open>
  \<open>HTTPToolAdapter._parse_timeout\<close>: the three suffix branches call \<open>float\<close>
  outside any \<open>try\<close>; only the last branch catches \<open>ValueError\<close>.
\<close>

definition parse_timeout :: "string \<Rightarrow> exn + pyfloat" where
  "parse_timeout timeout_str =
     (if endswith timeout_str CHR ''s'' then float_or_raise (butlast timeout_str)
      else if endswith timeout_str CHR ''m''
        then map_sum id (\<lambda>v. scale v 60) (float_or_raise (butlast timeout_str))
      else if endswith timeout_str CHR ''h''
        then map_sum id (\<lambda>v. scale v 3600) (float_or_raise (butlast timeout_str))
      else (case float_or_raise timeout_str of
              Inr v \<Rightarrow> Inr v
            | Inl _ \<Rightarrow> Inr (Finite 30)))"

section \<open>Tool configuration (tools/config.py)\<close>

text \<open>
  \<open>ToolDefinition\<close> and \<open>HandlerConfig\<close>, with the fields the dispatcher reads. The
  schemas and the per-transport settings blocks play no part in registration or retry
  and are left out. \<open>retries\<close> is a Python \<open>int\<close>: nothing in the loader rejects a
  negative value.
\<close>

record tool_definition =
  tool_def_name :: string
  tool_def_description :: string

record handler_config =
  h_name :: string
  h_type :: string
  h_endpoint :: string
  h_tool :: "tool_definition option"
  h_timeout :: string
  h_retries :: int

type_synonym tools_config = "handler_config list"

text \<open>\<open>ToolsConfig.get_tool_handler\<close>: the first handler whose tool block has the name.\<close>

fun get_tool_handler :: "tools_config \<Rightarrow> string \<Rightarrow> handler_config option" where
  "get_tool_handler [] tool_name = None"
| "get_tool_handler (handler # rest) tool_name =
     (case h_tool handler of
        Some t \<Rightarrow> (if tool_def_name t = tool_name then Some handler
                   else get_tool_handler rest tool_name)
      | None \<Rightarrow> get_tool_handler rest tool_name)"

section \<open>Tool adapters and the dispatcher (tools/http.py, tools/manager.py)\<close>

text \<open>
  An adapter is bound to one handler definition and holds the timeout parsed from it.
  \<open>HTTPToolAdapter.__init__\<close> stores the handler, copies the endpoint settings (which
  play no part in registration or retry and are left out) and calls
  \<open>_parse_timeout\<close> outside any \<open>try\<close>: a \<open>ValueError\<close> of the parser is raised
  out of the constructor.
\<close>

record adapter =
  adapter_handler :: handler_config
  adapter_timeout :: pyfloat

definition http_tool_adapter :: "handler_config \<Rightarrow> exn + adapter" where
  "http_tool_adapter handler =
     (case parse_timeout (h_timeout handler) of
        Inl e \<Rightarrow> Inl e
      | Inr t \<Rightarrow> Inr \<lparr>adapter_handler = handler, adapter_timeout = t\<rparr>)"

text \<open>
  \<open>HTTPToolAdapter.tool_name\<close> is the tool block's name when the handler has a tool
  block, else the handler's own name.
\<close>

definition tool_name_of :: "handler_config \<Rightarrow> string" where
  "tool_name_of handler =
     (case h_tool handler of Some t \<Rightarrow> tool_def_name t | None \<Rightarrow> h_name handler)"

definition adapter_tool_name :: "adapter \<Rightarrow> string" where
  "adapter_tool_name a = tool_name_of (adapter_handler a)"

text \<open>
  \<open>ToolManager._create_adapter\<close>: only the \<open>http\<close> kind yields an adapter, and the
  constructor's exception passes through.
\<close>

definition create_adapter :: "handler_config \<Rightarrow> exn + adapter option" where
  "create_adapter handler =
     (if h_type handler = ''http''
      then (case http_tool_adapter handler of Inl e \<Rightarrow> Inl e | Inr a \<Rightarrow> Inr (Some a))
      else Inr None)"

text \<open>
  \<open>ToolManager.initialize\<close>: the registry \<open>_adapters\<close> is a dict from tool name to
  adapter, filled in configuration order, so a later handler replaces an earlier one
  registered under the same name. Without a configuration the registry stays empty.
  An exception of \<open>_create_adapter\<close> ends the loop and is raised out of
  \<open>initialize\<close>: the handlers before the failing one stay registered, the failing one
  and those after it are not. The result is the outcome and the registry as it is left.
\<close>

fun register_all :: "handler_config list \<Rightarrow> (string \<rightharpoonup> adapter) \<Rightarrow> (exn + unit) \<times> (string \<rightharpoonup> adapter)" where
  "register_all [] adapters = (Inr (), adapters)"
| "register_all (handler # rest) adapters =
     (case create_adapter handler of
        Inl e \<Rightarrow> (Inl e, adapters)
      | Inr (Some a) \<Rightarrow> register_all rest (adapters(adapter_tool_name a \<mapsto> a))
      | Inr None \<Rightarrow> register_all rest adapters)"

definition initialize :: "tools_config option \<Rightarrow> (exn + unit) \<times> (string \<rightharpoonup> adapter)" where
  "initialize tools_config =
     (case tools_config of
        None \<Rightarrow> (Inr (), Map.empty)
      | Some c \<Rightarrow> register_all c Map.empty)"

text \<open>
  The retry budget \<open>max_retries\<close> that \<open>ToolManager.execute\<close> computes: the
  \<open>retries\<close> of the handler found by tool-block name, 0 when there is none.
\<close>

definition max_retries_of :: "tools_config option \<Rightarrow> string \<Rightarrow> int" where
  "max_retries_of tools_config tool_name =
     (case (case tools_config of
              Some c \<Rightarrow> get_tool_handler c tool_name
            | None \<Rightarrow> None) of
        Some handler \<Rightarrow> h_retries handler
      | None \<Rightarrow> 0)"

text \<open>
  The retry loop of \<open>ToolManager.execute\<close>. The transport is outside the program:
  \<open>call k\<close> is what the \<open>k\<close>-th call of \<open>adapter.execute\<close> (counting from 0) does,
  a result or a raised exception. The loop runs over \<open>range(max_retries + 1)\<close>; only a
  \<open>ToolAdapterError\<close> is caught. The number returned beside the outcome counts the
  adapter calls made.
\<close>

fun attempts :: "(nat \<Rightarrow> exn + 'v) \<Rightarrow> string \<Rightarrow> int \<Rightarrow> int list \<Rightarrow> exn option \<Rightarrow> nat \<Rightarrow> (exn + 'v) \<times> nat" where
  "attempts call tool_name max_retries [] last_error n =
     (Inl (case last_error of
             Some e \<Rightarrow> e
           | None \<Rightarrow> ToolAdapterError ''Unknown error'' tool_name False), n)"
| "attempts call tool_name max_retries (attempt # rest) last_error n =
     (case call n of
        Inr v \<Rightarrow> (Inr v, Suc n)
      | Inl e \<Rightarrow>
          (case e of
             ToolAdapterError m t is_retryable \<Rightarrow>
               if \<not> is_retryable \<or> attempt \<ge> max_retries then (Inl e, Suc n)
               else attempts call tool_name max_retries rest (Some e) (Suc n)
           | _ \<Rightarrow> (Inl e, Suc n)))"

definition execute :: "tools_config option \<Rightarrow> (string \<rightharpoonup> adapter) \<Rightarrow> (nat \<Rightarrow> exn + 'v) \<Rightarrow> string \<Rightarrow> (exn + 'v) \<times> nat" where
  "execute tools_config adapters call tool_name =
     (case adapters tool_name of
        None \<Rightarrow>
          (Inl (ToolAdapterError (''No adapter found for tool: '' @ tool_name) tool_name False), 0)
      | Some adapter \<Rightarrow>
          (let max_retries = max_retries_of tools_config tool_name
           in attempts call tool_name max_retries [0..max_retries] None 0))"

text \<open>
  A retryable failure of the adapter: it raised a \<open>ToolAdapterError\<close> whose
  \<open>is_retryable\<close> is set (timeout, connection failure, status 500 and above).
\<close>

definition retryable_failure :: "exn + 'v \<Rightarrow> bool" where
  "retryable_failure r =
     (case r of Inl (ToolAdapterError m t is_retryable) \<Rightarrow> is_retryable | _ \<Rightarrow> False)"

text \<open>Example configurations used to run the dispatcher on concrete inputs.\<close>

definition weather_handler :: handler_config where
  "weather_handler =
     \<lparr>h_name = ''weather'', h_type = ''http'', h_endpoint = ''http://api.weather.com/v1'',
      h_tool = Some \<lparr>tool_def_name = ''get_weather'',
                     tool_def_description = ''Get weather for a location''\<rparr>,
      h_timeout = ''30s'', h_retries = 2\<rparr>"

definition lookup_handler :: handler_config where
  "lookup_handler =
     \<lparr>h_name = ''lookup'', h_type = ''http'', h_endpoint = ''http://lookup'',
      h_tool = Some \<lparr>tool_def_name = ''search'', tool_def_description = ''Look up''\<rparr>,
      h_timeout = ''30s'', h_retries = 3\<rparr>"

definition search_handler :: handler_config where
  "search_handler =
     \<lparr>h_name = ''search'', h_type = ''http'', h_endpoint = ''http://search'',
      h_tool = None, h_timeout = ''30s'', h_retries = 5\<rparr>"

text \<open>A handler whose timeout ends in a unit letter after something that is no number.\<close>

definition slow_handler :: handler_config where
  "slow_handler =
     \<lparr>h_name = ''slow'', h_type = ''http'', h_endpoint = ''http://slow'',
      h_tool = None, h_timeout = ''500ms'', h_retries = 1\<rparr>"

definition timeout_error :: "exn + nat" where
  "timeout_error = Inl (ToolAdapterError ''Request timed out'' ''get_weather'' True)"

section \<open>JSON values and conversation messages\<close>

text \<open>
  The values that \<open>json.dumps\<close> accepts, as a tree; a dict is an association list in
  insertion order. A float is identified by the literal that \<open>json.dumps\<close> prints for
  it. Strings are sequences of code points below 256.
\<close>

datatype json =
    JNull
  | JBool bool
  | JInt int
  | JFloat string
  | JStr string
  | JArr "json list"
  | JObj "(string \<times> json) list"

text \<open>
  The message classes of \<open>langchain_core.messages\<close> that the runtime stores, with the
  fields it reads: \<open>content\<close> (a string or a list of parts), \<open>additional_kwargs\<close>,
  and \<open>tool_call_id\<close> for a tool message. \<open>OtherMessage\<close> is any further message
  class, with its class name.
\<close>

datatype message =
    HumanMessage json json
  | AIMessage json json
  | SystemMessage json json
  | ToolMessage json string json
  | OtherMessage string json json

section \<open>Timestamps\<close>

text \<open>
  A naive \<open>datetime\<close>, as \<open>datetime.utcnow()\<close> returns it. The class keeps its fields
  in range (\<open>valid_datetime\<close>). \<open>micros\<close> is the position on the time line in
  microseconds, computed as the library does it (proleptic Gregorian ordinal of the
  date); the difference of two timestamps compared with a \<open>timedelta\<close> is the
  difference of their positions.
\<close>

record datetime =
  dt_year :: nat
  dt_month :: nat
  dt_day :: nat
  dt_hour :: nat
  dt_minute :: nat
  dt_second :: nat
  dt_microsecond :: nat

definition is_leap :: "nat \<Rightarrow> bool" where
  "is_leap y = (y mod 4 = 0 \<and> (y mod 100 \<noteq> 0 \<or> y mod 400 = 0))"

definition days_in_month :: "nat \<Rightarrow> nat \<Rightarrow> nat" where
  "days_in_month y m =
     (if m = 2 \<and> is_leap y then 29
      else [31, 28, 31, 30, 31, 30, 31, 31, 30, 31, 30, 31] ! (m - 1))"

definition valid_datetime :: "datetime \<Rightarrow> bool" where
  "valid_datetime d =
     (1 \<le> dt_year d \<and> dt_year d \<le> 9999 \<and> 1 \<le> dt_month d \<and> dt_month d \<le> 12 \<and>
      1 \<le> dt_day d \<and> dt_day d \<le> days_in_month (dt_year d) (dt_month d) \<and>
      dt_hour d < 24 \<and> dt_minute d < 60 \<and> dt_second d < 60 \<and>
      dt_microsecond d < 1000000)"

definition days_before_year :: "nat \<Rightarrow> int" where
  "days_before_year y =
     (let z = int y - 1 in z * 365 + z div 4 - z div 100 + z div 400)"

definition days_before_month :: "nat \<Rightarrow> nat \<Rightarrow> int" where
  "days_before_month y m =
     int ([0, 31, 59, 90, 120, 151, 181, 212, 243, 273, 304, 334] ! (m - 1)) +
     (if m > 2 \<and> is_leap y then 1 else 0)"

definition toordinal :: "datetime \<Rightarrow> int" where
  "toordinal d =
     days_before_year (dt_year d) + days_before_month (dt_year d) (dt_month d) + int (dt_day d)"

definition micros :: "datetime \<Rightarrow> int" where
  "micros d =
     ((toordinal d * 86400 + int (dt_hour d) * 3600 + int (dt_minute d) * 60 + int (dt_second d))
        * 1000000) + int (dt_microsecond d)"

section \<open>Sessions (session/base.py)\<close>

record session =
  session_id :: string
  messages :: "message list"
  metadata :: json
  created_at :: datetime
  updated_at :: datetime

section \<open>The program state\<close>

text \<open>
  \<open>Session\<close> objects are mutable and shared: the in-process store keeps references to
  the very objects the orchestrator appends to. So the state has a heap of session
  objects by address, and the store's ordered dict \<open>_sessions\<close> maps a session id to an
  address, oldest entry first. The store's settings \<open>ttl_seconds\<close> and \<open>max_sessions\<close>
  are Python integers. The clock is outside the program: \<open>clock k\<close> is what the
  \<open>k\<close>-th call of \<open>datetime.utcnow()\<close> returns, and \<open>ticks\<close> counts the calls made.
\<close>

record world =
  heap :: "nat \<Rightarrow> session"
  next_addr :: nat
  clock :: "nat \<Rightarrow> datetime"
  ticks :: nat
  sessions :: "(string \<times> nat) list"
  ttl_seconds :: int
  max_sessions :: int

definition utcnow :: "world \<Rightarrow> datetime \<times> world" where
  "utcnow w = (clock w (ticks w), w\<lparr>ticks := Suc (ticks w)\<rparr>)"

text \<open>\<open>Session.add_message\<close>: append in place and refresh \<open>updated_at\<close>.\<close>

definition add_message :: "nat \<Rightarrow> message \<Rightarrow> world \<Rightarrow> world" where
  "add_message a message w =
     (let w1 = w\<lparr>heap := (heap w)(a := (heap w a)\<lparr>messages := messages (heap w a) @ [message]\<rparr>)\<rparr>;
          (now, w2) = utcnow w1
      in w2\<lparr>heap := (heap w2)(a := (heap w2 a)\<lparr>updated_at := now\<rparr>)\<rparr>)"

text \<open>
  \<open>Session(session_id=...)\<close>: a new object with no messages, an empty dict as metadata, and the
  two timestamps taken by two calls of \<open>utcnow\<close>, in field order.
\<close>

definition new_session :: "string \<Rightarrow> world \<Rightarrow> nat \<times> world" where
  "new_session sid w =
     (let (c, w1) = utcnow w;
          (u, w2) = utcnow w1;
          a = next_addr w2
      in (a, w2\<lparr>heap := (heap w2)(a := \<lparr>session_id = sid, messages = [], metadata = JObj [],
                                            created_at = c, updated_at = u\<rparr>),
                next_addr := Suc a\<rparr>))"

section \<open>The bounded in-process store (session/memory.py)\<close>

text \<open>Operations of \<open>OrderedDict\<close> on the association list.\<close>

definition od_del :: "string \<Rightarrow> (string \<times> 'v) list \<Rightarrow> (string \<times> 'v) list" where
  "od_del k d = filter (\<lambda>kv. fst kv \<noteq> k) d"

definition od_move_to_end :: "string \<Rightarrow> (string \<times> 'v) list \<Rightarrow> (string \<times> 'v) list" where
  "od_move_to_end k d =
     (case map_of d k of Some v \<Rightarrow> od_del k d @ [(k, v)] | None \<Rightarrow> d)"

definition od_set :: "string \<Rightarrow> 'v \<Rightarrow> (string \<times> 'v) list \<Rightarrow> (string \<times> 'v) list" where
  "od_set k v d =
     (if k \<in> fst ` set d then map (\<lambda>kv. if fst kv = k then (k, v) else kv) d
      else d @ [(k, v)])"

definition expired :: "world \<Rightarrow> datetime \<Rightarrow> nat \<Rightarrow> bool" where
  "expired w now a = (micros now - micros (updated_at (heap w a)) > ttl_seconds w * 1000000)"

text \<open>
  \<open>InMemorySessionStore.get\<close>: absent id, or lazy expiry (the entry is deleted), or a
  hit that moves the entry to the end. The clock is read only when the id is present.
\<close>

definition store_get :: "string \<Rightarrow> world \<Rightarrow> nat option \<times> world" where
  "store_get sid w =
     (case map_of (sessions w) sid of
        None \<Rightarrow> (None, w)
      | Some a \<Rightarrow>
          (let (now, w1) = utcnow w
           in if expired w1 now a then (None, w1\<lparr>sessions := od_del sid (sessions w1)\<rparr>)
              else (Some a, w1\<lparr>sessions := od_move_to_end sid (sessions w1)\<rparr>)))"

text \<open>
  The eviction loop of \<open>save\<close>: \<open>while len(self._sessions) >= self.max_sessions:
  self._sessions.popitem(last=False)\<close>. \<open>popitem\<close> on an empty dict raises
  \<open>KeyError\<close>, which happens exactly when \<open>max_sessions\<close> is not positive.
\<close>

fun evict :: "int \<Rightarrow> 'a list \<Rightarrow> exn + 'a list" where
  "evict cap [] = (if 0 \<ge> cap then Inl (KeyError ''dictionary is empty'') else Inr [])"
| "evict cap (x # xs) =
     (if int (length (x # xs)) \<ge> cap then evict cap xs else Inr (x # xs))"

text \<open>
  \<open>InMemorySessionStore.save\<close>: stamp \<open>updated_at\<close> on the object, delete the id if
  present, evict from the front while at capacity, insert at the end. When \<open>popitem\<close>
  raises, the dict is empty at that moment.
\<close>

definition store_save :: "nat \<Rightarrow> world \<Rightarrow> (exn + unit) \<times> world" where
  "store_save a w =
     (let (now, w1) = utcnow w;
          w2 = w1\<lparr>heap := (heap w1)(a := (heap w1 a)\<lparr>updated_at := now\<rparr>)\<rparr>;
          sid = session_id (heap w2 a);
          d = (if sid \<in> fst ` set (sessions w2) then od_del sid (sessions w2) else sessions w2)
      in case evict (max_sessions w2) d of
           Inl e \<Rightarrow> (Inl e, w2\<lparr>sessions := []\<rparr>)
         | Inr d' \<Rightarrow> (Inr (), w2\<lparr>sessions := od_set sid a d'\<rparr>))"

text \<open>\<open>InMemorySessionStore.delete\<close>: \<open>pop(session_id, None)\<close>, no error when absent.\<close>

definition store_delete :: "string \<Rightarrow> world \<Rightarrow> world" where
  "store_delete sid w = w\<lparr>sessions := od_del sid (sessions w)\<rparr>"

text \<open>\<open>InMemorySessionStore.cleanup_expired\<close>: one clock reading, the count of removals.\<close>

definition cleanup_expired :: "world \<Rightarrow> nat \<times> world" where
  "cleanup_expired w =
     (let (now, w1) = utcnow w;
          expired_ids = map fst (filter (\<lambda>kv. expired w1 now (snd kv)) (sessions w1))
      in (length expired_ids, w1\<lparr>sessions := fold od_del expired_ids (sessions w1)\<rparr>))"

text \<open>
  \<open>SessionStore\<close> (session/base.py), the interface the orchestrator is written
  against: \<open>get\<close> and \<open>save\<close> of a backend, each of which may raise.
  \<open>get_or_create\<close> is defined on the interface: get, else create and save.
\<close>

record session_store =
  store_get_op :: "string \<Rightarrow> world \<Rightarrow> (exn + nat option) \<times> world"
  store_save_op :: "nat \<Rightarrow> world \<Rightarrow> (exn + unit) \<times> world"

definition get_or_create :: "session_store \<Rightarrow> string \<Rightarrow> world \<Rightarrow> (exn + nat) \<times> world" where
  "get_or_create store sid w =
     (case store_get_op store sid w of
        (Inl e, w1) \<Rightarrow> (Inl e, w1)
      | (Inr (Some a), w1) \<Rightarrow> (Inr a, w1)
      | (Inr None, w1) \<Rightarrow>
          (let (a, w2) = new_session sid w1
           in case store_save_op store a w2 of
                (Inl e, w3) \<Rightarrow> (Inl e, w3)
              | (Inr _, w3) \<Rightarrow> (Inr a, w3)))"

text \<open>The in-process backend: its \<open>get\<close> never raises.\<close>

definition memory_store :: session_store where
  "memory_store =
     \<lparr>store_get_op = (\<lambda>sid w. case store_get sid w of (r, w') \<Rightarrow> (Inr r, w')),
      store_save_op = store_save\<rparr>"

text \<open>A fresh store, as \<open>InMemorySessionStore.__init__\<close> leaves it, on an empty heap.\<close>

definition blank_session :: session where
  "blank_session =
     \<lparr>session_id = [], messages = [], metadata = JObj [],
      created_at = \<lparr>dt_year = 1, dt_month = 1, dt_day = 1, dt_hour = 0, dt_minute = 0,
                    dt_second = 0, dt_microsecond = 0\<rparr>,
      updated_at = \<lparr>dt_year = 1, dt_month = 1, dt_day = 1, dt_hour = 0, dt_minute = 0,
                    dt_second = 0, dt_microsecond = 0\<rparr>\<rparr>"

definition init_world :: "(nat \<Rightarrow> datetime) \<Rightarrow> int \<Rightarrow> int \<Rightarrow> world" where
  "init_world clk ttl cap =
     \<lparr>heap = (\<lambda>a. blank_session), next_addr = 0, clock = clk, ticks = 0, sessions = [],
      ttl_seconds = ttl, max_sessions = cap\<rparr>"

text \<open>The ids the store holds, oldest first.\<close>

definition stored_ids :: "world \<Rightarrow> string list" where
  "stored_ids w = map fst (sessions w)"

text \<open>A sequence of \<open>save\<close> calls, stopping at the first that raises.\<close>

fun save_all :: "nat list \<Rightarrow> world \<Rightarrow> (exn + unit) \<times> world" where
  "save_all [] w = (Inr (), w)"
| "save_all (a # as) w =
     (case store_save a w of
        (Inl e, w') \<Rightarrow> (Inl e, w')
      | (Inr _, w') \<Rightarrow> save_all as w')"

text \<open>The last \<open>n\<close> elements of a list: the \<open>n\<close> most recently used of a recency order.\<close>

definition lastn :: "nat \<Rightarrow> 'a list \<Rightarrow> 'a list" where
  "lastn n xs = drop (length xs - n) xs"

text \<open>Moving an id to the most-recently-used end of a recency order.\<close>

definition touch :: "'a \<Rightarrow> 'a list \<Rightarrow> 'a list" where
  "touch x xs = removeAll x xs @ [x]"

text \<open>Calls on the store, run in sequence; the state after them.\<close>

datatype store_op = Get string | Save nat | Delete string | Cleanup

fun run_op :: "store_op \<Rightarrow> world \<Rightarrow> world" where
  "run_op (Get sid) w = snd (store_get sid w)"
| "run_op (Save a) w = snd (store_save a w)"
| "run_op (Delete sid) w = store_delete sid w"
| "run_op Cleanup w = snd (cleanup_expired w)"

fun saves_id :: "world \<Rightarrow> string \<Rightarrow> store_op \<Rightarrow> bool" where
  "saves_id w sid (Save a) = (session_id (heap w a) = sid)"
| "saves_id w sid _ = False"

text \<open>Example clock and sessions used to run the store on concrete inputs.\<close>

definition second_clock :: "nat \<Rightarrow> datetime" where
  "second_clock k =
     \<lparr>dt_year = 2025, dt_month = 3, dt_day = 1, dt_hour = 12, dt_minute = k div 60,
      dt_second = k mod 60, dt_microsecond = 0\<rparr>"

definition named_session :: "string \<Rightarrow> session" where
  "named_session sid = blank_session\<lparr>session_id := sid\<rparr>"

definition session_name :: "nat \<Rightarrow> string" where
  "session_name a =
     (if a = 0 then ''session-0'' else if a = 1 then ''session-1''
      else if a = 2 then ''session-2'' else ''session-3'')"

definition four_sessions :: world where
  "four_sessions =
     (init_world second_clock 86400 3)
       \<lparr>heap := (\<lambda>a. named_session (session_name a)), next_addr := 4\<rparr>"

definition stale_world :: world where
  "stale_world =
     \<lparr>heap = (\<lambda>a. (named_session ''session-0'')\<lparr>updated_at := second_clock 0\<rparr>),
      next_addr = 1, clock = second_clock, ticks = 5, sessions = [(''session-0'', 0)],
      ttl_seconds = 1, max_sessions = 3\<rparr>"

definition two_stored :: world where
  "two_stored =
     \<lparr>heap = (\<lambda>a. (named_session (session_name a))\<lparr>updated_at := second_clock 0\<rparr>),
      next_addr = 2, clock = second_clock, ticks = 2,
      sessions = [(''session-0'', 0), (''session-1'', 1)],
      ttl_seconds = 86400, max_sessions = 3\<rparr>"

section \<open>The text that \<open>json.dumps\<close> prints\<close>

text \<open>
  \<open>json.dumps\<close> with its default settings: \<open>, \<close> and \<open>: \<close> as separators, and
  every character outside the printable ASCII range, the double quote and the backslash
  escaped.
\<close>

fun dec_nat :: "nat \<Rightarrow> string" where
  "dec_nat n =
     (if n < 10 then [char_of (48 + n)] else dec_nat (n div 10) @ [char_of (48 + n mod 10)])"

definition dec_int :: "int \<Rightarrow> string" where
  "dec_int i = (if i < 0 then CHR ''-'' # dec_nat (nat (- i)) else dec_nat (nat i))"

definition hex_digit :: "nat \<Rightarrow> char" where
  "hex_digit n = (if n < 10 then char_of (48 + n) else char_of (87 + n))"

definition escape_char :: "char \<Rightarrow> string" where
  "escape_char c =
     (let n = (of_char c :: nat) in
      if n = 34 then [CHR 0x5C, CHR 0x22]
      else if n = 92 then [CHR 0x5C, CHR 0x5C]
      else if n = 10 then [CHR 0x5C, CHR ''n'']
      else if n = 13 then [CHR 0x5C, CHR ''r'']
      else if n = 9 then [CHR 0x5C, CHR ''t'']
      else if n = 8 then [CHR 0x5C, CHR ''b'']
      else if n = 12 then [CHR 0x5C, CHR ''f'']
      else if 32 \<le> n \<and> n \<le> 126 then [c]
      else [CHR 0x5C, CHR ''u'', CHR ''0'', CHR ''0'', hex_digit (n div 16), hex_digit (n mod 16)])"

definition dumps_str :: "string \<Rightarrow> string" where
  "dumps_str s = CHR 0x22 # concat (map escape_char s) @ [CHR 0x22]"

fun json_dumps :: "json \<Rightarrow> string"
  and dumps_elems :: "json list \<Rightarrow> string"
  and dumps_items :: "(string \<times> json) list \<Rightarrow> string" where
  "json_dumps JNull = ''null''"
| "json_dumps (JBool b) = (if b then ''true'' else ''false'')"
| "json_dumps (JInt i) = dec_int i"
| "json_dumps (JFloat r) = r"
| "json_dumps (JStr s) = dumps_str s"
| "json_dumps (JArr xs) = ''['' @ dumps_elems xs @ '']''"
| "json_dumps (JObj kvs) = ''{'' @ dumps_items kvs @ ''}''"
| "dumps_elems [] = []"
| "dumps_elems [x] = json_dumps x"
| "dumps_elems (x # y # ys) = json_dumps x @ '', '' @ dumps_elems (y # ys)"
| "dumps_items [] = []"
| "dumps_items [(k, v)] = dumps_str k @ '': '' @ json_dumps v"
| "dumps_items ((k, v) # kv # kvs) =
     dumps_str k @ '': '' @ json_dumps v @ '', '' @ dumps_items (kv # kvs)"

text \<open>
  A Python value handed to \<open>json.dumps\<close>: a JSON tree, or an object of some other
  class, for which \<open>json.dumps\<close> raises \<open>TypeError\<close>.
\<close>

datatype pyval = Val json | Obj string

definition dumps_py :: "pyval \<Rightarrow> exn + string" where
  "dumps_py v =
     (case v of
        Val j \<Rightarrow> Inr (json_dumps j)
      | Obj c \<Rightarrow> Inl (TypeError (''Object of type '' @ c @ '' is not JSON serializable'')))"

section \<open>Reasoning events and outbound messages (handler.py)\<close>

text \<open>
  The events of \<open>agent.astream_events\<close> that \<open>handle_message\<close> reads.
  \<open>OnChatModelStream c\<close>: \<open>c\<close> is the chunk's \<open>content\<close>, \<open>None\<close> when the event has
  no chunk or the chunk no content. \<open>OnToolStart run_id name input\<close>.
  \<open>OnToolEnd run_id output\<close>. \<open>OnLlmEnd u\<close>: \<open>u\<close> is \<open>None\<close> when the output has no
  \<open>llm_output\<close>, else the \<open>prompt_tokens\<close> and \<open>completion_tokens\<close> of its
  \<open>token_usage\<close>, each \<open>None\<close> when missing. \<open>OtherEvent\<close>: any other event type.
\<close>

datatype chunk_content = Text string | Parts "json list"

datatype event =
    OnChatModelStream "chunk_content option"
  | OnToolStart string string pyval
  | OnToolEnd string pyval
  | OnLlmEnd "(int option \<times> int option) option"
  | OtherEvent string

text \<open>
  \<open>ServerMessage\<close>: \<open>Chunk content\<close>, \<open>ToolCall id name arguments_json\<close>,
  \<open>ToolResult id result_json is_error\<close>, \<open>Done final_content input_tokens
  output_tokens\<close> (its \<open>cost_usd\<close> is always 0.0), \<open>Error code message\<close>.
\<close>

datatype server_message =
    Chunk string
  | ToolCall string string string
  | ToolResult string string bool
  | Done string int int
  | Error string string

fun is_terminal :: "server_message \<Rightarrow> bool" where
  "is_terminal (Done _ _ _) = True"
| "is_terminal (Error _ _) = True"
| "is_terminal _ = False"

record turn_state =
  final_content :: string
  total_input_tokens :: int
  total_output_tokens :: int

definition initial_state :: turn_state where
  "initial_state = \<lparr>final_content = [], total_input_tokens = 0, total_output_tokens = 0\<rparr>"

text \<open>
  One pass of the loop body: the messages yielded for the event and the new
  accumulators, or the exception raised. A non-empty list as chunk content makes
  \<open>final_content += chunk.content\<close> raise \<open>TypeError\<close>.
\<close>

fun translate :: "event \<Rightarrow> turn_state \<Rightarrow> exn + (server_message list \<times> turn_state)" where
  "translate (OnChatModelStream c) st =
     (case c of
        None \<Rightarrow> Inr ([], st)
      | Some (Text s) \<Rightarrow>
          if s \<noteq> [] then Inr ([Chunk s], st\<lparr>final_content := final_content st @ s\<rparr>)
          else Inr ([], st)
      | Some (Parts ps) \<Rightarrow>
          if ps \<noteq> [] then Inl (TypeError (''can only concatenate str (not '' @ [CHR 0x22] @ ''list''
                                         @ [CHR 0x22] @ '') to str''))
          else Inr ([], st))"
| "translate (OnToolStart run_id tool_name tool_input) st =
     (case dumps_py tool_input of
        Inl e \<Rightarrow> Inl e
      | Inr arguments_json \<Rightarrow> Inr ([ToolCall run_id tool_name arguments_json], st))"
| "translate (OnToolEnd run_id output) st =
     (case output of
        Val (JStr s) \<Rightarrow> Inr ([ToolResult run_id s False], st)
      | _ \<Rightarrow>
          (case dumps_py output of
             Inl e \<Rightarrow> Inl e
           | Inr s \<Rightarrow> Inr ([ToolResult run_id s False], st)))"
| "translate (OnLlmEnd u) st =
     (case u of
        None \<Rightarrow> Inr ([], st)
      | Some (prompt_tokens, completion_tokens) \<Rightarrow>
          Inr ([], st\<lparr>total_input_tokens :=
                         total_input_tokens st + (case prompt_tokens of Some n \<Rightarrow> n | None \<Rightarrow> 0),
                       total_output_tokens :=
                         total_output_tokens st
                           + (case completion_tokens of Some n \<Rightarrow> n | None \<Rightarrow> 0)\<rparr>))"
| "translate (OtherEvent _) st = Inr ([], st)"

text \<open>
  The \<open>async for\<close> loop over the event stream. The stream is the list of events it
  yields and then either its end (\<open>None\<close>) or the exception it raises (\<open>Some e\<close>).
  The result is the messages yielded so far and the final accumulators or the
  exception that left the loop.
\<close>

fun consume :: "event list \<Rightarrow> exn option \<Rightarrow> turn_state \<Rightarrow> server_message list \<times> (exn + turn_state)" where
  "consume [] None st = ([], Inr st)"
| "consume [] (Some e) st = ([], Inl e)"
| "consume (ev # evs) raised st =
     (case translate ev st of
        Inl e \<Rightarrow> ([], Inl e)
      | Inr (out, st') \<Rightarrow>
          (case consume evs raised st' of (outs, r) \<Rightarrow> (out @ outs, r)))"

section \<open>The orchestrator (handler.py)\<close>

record media =
  media_url :: string
  media_data :: string
  media_mime_type :: string

record content_part =
  part_type :: string
  part_text :: string
  part_media :: "media option"

text \<open>\<open>LangChainHandler._build_user_message\<close>.\<close>

fun convert_parts :: "content_part list \<Rightarrow> json list" where
  "convert_parts [] = []"
| "convert_parts (part # rest) =
     (if part_type part = ''text''
      then JObj [(''type'', JStr ''text''), (''text'', JStr (part_text part))] # convert_parts rest
      else
        (case (if part_type part = ''image'' then part_media part else None) of
           Some m \<Rightarrow>
             if media_url m \<noteq> []
             then JObj [(''type'', JStr ''image_url''),
                        (''image_url'', JObj [(''url'', JStr (media_url m))])] # convert_parts rest
             else if media_data m \<noteq> []
             then JObj [(''type'', JStr ''image_url''),
                        (''image_url'',
                         JObj [(''url'', JStr (''data:'' @ media_mime_type m @ '';base64,''
                                                @ media_data m))])] # convert_parts rest
             else convert_parts rest
         | None \<Rightarrow> convert_parts rest))"

definition build_user_message :: "string option \<Rightarrow> content_part list option \<Rightarrow> message" where
  "build_user_message content parts =
     (case (case parts of Some ps \<Rightarrow> (if ps \<noteq> [] then Some ps else None) | None \<Rightarrow> None) of
        Some ps \<Rightarrow> HumanMessage (JArr (convert_parts ps)) (JObj [])
      | None \<Rightarrow> HumanMessage (JStr (case content of Some c \<Rightarrow> c | None \<Rightarrow> [])) (JObj []))"

text \<open>
  What the orchestrator is given from outside: \<open>json.loads\<close> (\<open>None\<close> for
  \<open>JSONDecodeError\<close>), and the outcome of resolving the tools and creating the agent:
  the exception raised, or the agent, which maps the message history and the template
  variables to its event stream.
\<close>

record env =
  json_loads :: "string \<Rightarrow> json option"
  make_agent :: "exn + (message list \<Rightarrow> json \<Rightarrow> event list \<times> exn option)"

text \<open>\<open>LangChainHandler._extract_variables\<close>.\<close>

definition extract_variables :: "env \<Rightarrow> (string \<times> string) list \<Rightarrow> json" where
  "extract_variables env request_metadata =
     (case map_of request_metadata ''variables'' of
        Some variables_str \<Rightarrow>
          (if variables_str \<noteq> []
           then (case json_loads env variables_str of Some result \<Rightarrow> result | None \<Rightarrow> JObj [])
           else JObj [])
      | None \<Rightarrow> JObj [])"

text \<open>
  The body of the \<open>try\<close> block of \<open>handle_message\<close> up to the \<open>done\<close> message, on
  the handler's session store: the messages yielded, the accumulators on completion or
  the exception raised, and the state left behind.
\<close>

definition try_body :: "session_store \<Rightarrow> env \<Rightarrow> string \<Rightarrow> string option \<Rightarrow> content_part list option \<Rightarrow> (string \<times> string) list \<Rightarrow> world \<Rightarrow> server_message list \<times> (exn + turn_state) \<times> world" where
  "try_body store env sid content parts request_metadata w =
     (case get_or_create store sid w of
        (Inl e, w1) \<Rightarrow> ([], Inl e, w1)
      | (Inr session, w1) \<Rightarrow>
          (let user_message = build_user_message content parts;
               w2 = add_message session user_message w1
           in case make_agent env of
                Inl e \<Rightarrow> ([], Inl e, w2)
              | Inr agent \<Rightarrow>
                  (let variables = extract_variables env request_metadata
                   in case agent (messages (heap w2 session)) variables of
                        (events, raised) \<Rightarrow>
                          (case consume events raised initial_state of
                             (outs, Inl e) \<Rightarrow> (outs, Inl e, w2)
                           | (outs, Inr st) \<Rightarrow>
                               (let w3 = (if final_content st \<noteq> []
                                          then add_message session
                                                 (AIMessage (JStr (final_content st)) (JObj [])) w2
                                          else w2)
                                in case store_save_op store session w3 of
                                     (Inl e, w4) \<Rightarrow> (outs, Inl e, w4)
                                   | (Inr _, w4) \<Rightarrow> (outs, Inr st, w4))))))"

text \<open>
  \<open>LangChainHandler.handle_message\<close>: the messages yielded, in order, and the state
  afterwards. The \<open>done\<close> message is the last statement of the \<open>try\<close> block; the
  \<open>except Exception\<close> clause yields the \<open>error\<close> message.
\<close>

definition handle_message :: "session_store \<Rightarrow> env \<Rightarrow> string \<Rightarrow> string option \<Rightarrow> content_part list option \<Rightarrow> (string \<times> string) list \<Rightarrow> world \<Rightarrow> server_message list \<times> world" where
  "handle_message store env sid content parts request_metadata w =
     (case try_body store env sid content parts request_metadata w of
        (outs, Inr st, w') \<Rightarrow>
          (outs @ [Done (final_content st) (total_input_tokens st) (total_output_tokens st)], w')
      | (outs, Inl e, w') \<Rightarrow> (outs @ [Error ''HANDLER_ERROR'' (exn_str e)], w'))"

section \<open>The tool handler given to the agent (tools/manager.py)\<close>



text \<open>Example turns used to run the orchestrator on concrete inputs.\<close>

definition fresh_world :: world where
  "fresh_world = init_world second_clock 86400 10000"

definition no_room_world :: world where
  "no_room_world = init_world second_clock 86400 0"

definition hello_message :: message where
  "hello_message = HumanMessage (JStr ''hello'') (JObj [])"

definition greeting_env :: env where
  "greeting_env =
     \<lparr>json_loads = (\<lambda>s. None),
      make_agent = Inr (\<lambda>history variables.
        ([OnChatModelStream (Some (Text ''Hi'')), OnChatModelStream (Some (Text '' there'')),
          OnLlmEnd (Some (Some 5, Some 3))], None))\<rparr>"

definition failing_env :: env where
  "failing_env =
     \<lparr>json_loads = (\<lambda>s. None),
      make_agent = Inr (\<lambda>history variables.
        ([OnChatModelStream (Some (Text ''Hi''))], Some (OtherError ''boom'')))\<rparr>"

definition broken_env :: env where
  "broken_env =
     \<lparr>json_loads = (\<lambda>s. None), make_agent = Inl (ValueError ''Prompt not found in pack'')\<rparr>"

text \<open>
  A backend whose reads work (here served by the in-process store) but whose writes
  are refused.
\<close>

definition read_only_store :: session_store where
  "read_only_store =
     \<lparr>store_get_op = (\<lambda>sid w. case store_get sid w of (r, w') \<Rightarrow> (Inr r, w')),
      store_save_op = (\<lambda>a w. (Inl (OtherError ''READONLY write refused''), w))\<rparr>"

definition opaque_env :: env where
  "opaque_env =
     \<lparr>json_loads = (\<lambda>s. None),
      make_agent = Inr (\<lambda>history variables.
        ([OnChatModelStream (Some (Text ''Hm'')), OnToolEnd ''run-1'' (Obj ''ToolMessage'')],
         None))\<rparr>"






section \<open>Timestamps as text\<close>

text \<open>
  \<open>datetime.isoformat()\<close> of a naive timestamp: \<open>YYYY-MM-DDTHH:MM:SS\<close>, followed by
  \<open>.ffffff\<close> when the microsecond is not 0; each field zero-padded to its width.
\<close>

definition pad :: "nat \<Rightarrow> nat \<Rightarrow> string" where
  "pad k n = replicate (k - length (dec_nat n)) CHR ''0'' @ dec_nat n"

definition isoformat :: "datetime \<Rightarrow> string" where
  "isoformat d =
     pad 4 (dt_year d) @ ''-'' @ pad 2 (dt_month d) @ ''-'' @ pad 2 (dt_day d) @ ''T'' @
     pad 2 (dt_hour d) @ '':'' @ pad 2 (dt_minute d) @ '':'' @ pad 2 (dt_second d) @
     (if dt_microsecond d \<noteq> 0 then ''.'' @ pad 6 (dt_microsecond d) else [])"

text \<open>
  \<open>datetime.fromisoformat\<close>, the documented inverse of \<open>isoformat\<close>: the date
  \<open>YYYY-MM-DD\<close>, then optionally one separator character and the time \<open>HH\<close>,
  \<open>HH:MM\<close>, \<open>HH:MM:SS\<close>, \<open>HH:MM:SS.fff\<close> or \<open>HH:MM:SS.ffffff\<close>, digits only, the
  fields in range; anything else raises \<open>ValueError\<close>. Time-zone suffixes and the
  further formats that newer library versions accept are not modelled.
\<close>

definition digits_val :: "string \<Rightarrow> nat option" where
  "digits_val s = (if s \<noteq> [] \<and> list_all is_digit s then Some (nat_of_digits s) else None)"

definition parse_date :: "string \<Rightarrow> (nat \<times> nat \<times> nat) option" where
  "parse_date s =
     (if length s = 10 \<and> s ! 4 = CHR ''-'' \<and> s ! 7 = CHR ''-''
      then (case (digits_val (take 4 s), digits_val (take 2 (drop 5 s)),
                  digits_val (take 2 (drop 8 s))) of
              (Some y, Some m, Some d) \<Rightarrow> Some (y, m, d)
            | _ \<Rightarrow> None)
      else None)"

definition parse_time :: "string \<Rightarrow> (nat \<times> nat \<times> nat \<times> nat) option" where
  "parse_time t =
     (let n = length t in
      if n \<notin> {2, 5, 8, 12, 15} then None
      else
        (case (digits_val (take 2 t),
               (if n \<ge> 5 then (if t ! 2 = CHR '':'' then digits_val (take 2 (drop 3 t)) else None)
                else Some 0),
               (if n \<ge> 8 then (if t ! 5 = CHR '':'' then digits_val (take 2 (drop 6 t)) else None)
                else Some 0),
               (if n > 8
                then (if t ! 8 = CHR ''.''
                      then map_option (\<lambda>v. if n = 12 then v * 1000 else v) (digits_val (drop 9 t))
                      else None)
                else Some 0)) of
           (Some h, Some m, Some s, Some us) \<Rightarrow> Some (h, m, s, us)
         | _ \<Rightarrow> None))"

definition fromisoformat :: "string \<Rightarrow> exn + datetime" where
  "fromisoformat s =
     (case (parse_date (take 10 s),
            (if length s > 10 then parse_time (drop 11 s) else Some (0, 0, 0, 0))) of
        (Some (y, m, d), Some (h, mi, sec, us)) \<Rightarrow>
          (let dt = \<lparr>dt_year = y, dt_month = m, dt_day = d, dt_hour = h, dt_minute = mi,
                     dt_second = sec, dt_microsecond = us\<rparr>
           in if valid_datetime dt then Inr dt
              else Inl (ValueError ''value is out of range''))
      | _ \<Rightarrow> Inl (ValueError (''Invalid isoformat string: '' @ s)))"

section \<open>The external-cache record (session/redis.py)\<close>

text \<open>
  The record is the tree handed to \<open>json.dumps\<close> and got back from \<open>json.loads\<close>:
  the two are inverse on trees, and the text between them is not modelled.
\<close>

fun class_name :: "message \<Rightarrow> string" where
  "class_name (HumanMessage _ _) = ''HumanMessage''"
| "class_name (AIMessage _ _) = ''AIMessage''"
| "class_name (SystemMessage _ _) = ''SystemMessage''"
| "class_name (ToolMessage _ _ _) = ''ToolMessage''"
| "class_name (OtherMessage c _ _) = c"

fun content_of :: "message \<Rightarrow> json" where
  "content_of (HumanMessage c _) = c"
| "content_of (AIMessage c _) = c"
| "content_of (SystemMessage c _) = c"
| "content_of (ToolMessage c _ _) = c"
| "content_of (OtherMessage _ c _) = c"

fun additional_kwargs :: "message \<Rightarrow> json" where
  "additional_kwargs (HumanMessage _ k) = k"
| "additional_kwargs (AIMessage _ k) = k"
| "additional_kwargs (SystemMessage _ k) = k"
| "additional_kwargs (ToolMessage _ _ k) = k"
| "additional_kwargs (OtherMessage _ _ k) = k"

text \<open>The loop body of \<open>RedisSessionStore._serialize\<close>.\<close>

definition serialize_message :: "message \<Rightarrow> json" where
  "serialize_message msg =
     JObj ([(''type'', JStr (class_name msg)), (''content'', content_of msg),
            (''additional_kwargs'', additional_kwargs msg)] @
           (case msg of
              ToolMessage _ tool_call_id _ \<Rightarrow> [(''tool_call_id'', JStr tool_call_id)]
            | _ \<Rightarrow> []))"

definition serialize :: "session \<Rightarrow> json" where
  "serialize s =
     JObj [(''messages'', JArr (map serialize_message (messages s))),
           (''metadata'', metadata s),
           (''created_at'', JStr (isoformat (created_at s))),
           (''updated_at'', JStr (isoformat (updated_at s)))]"

text \<open>
  What the message classes accept when constructed: \<open>content\<close> a string or a list of
  strings and objects, \<open>additional_kwargs\<close> an object, \<open>tool_call_id\<close> a string.
  Anything else raises the validation error (a \<open>ValueError\<close>).
\<close>

definition valid_content :: "json \<Rightarrow> bool" where
  "valid_content c =
     (case c of
        JStr _ \<Rightarrow> True
      | JArr xs \<Rightarrow> list_all (\<lambda>x. case x of JStr _ \<Rightarrow> True | JObj _ \<Rightarrow> True | _ \<Rightarrow> False) xs
      | _ \<Rightarrow> False)"

definition is_obj :: "json \<Rightarrow> bool" where
  "is_obj j = (case j of JObj _ \<Rightarrow> True | _ \<Rightarrow> False)"

definition construct :: "json \<Rightarrow> json \<Rightarrow> message \<Rightarrow> exn + message" where
  "construct content kwargs m =
     (if valid_content content \<and> is_obj kwargs then Inr m
      else Inl (ValueError ''validation error''))"

definition get_default :: "(string \<times> json) list \<Rightarrow> string \<Rightarrow> json \<Rightarrow> json" where
  "get_default kvs k dflt = (case map_of kvs k of Some v \<Rightarrow> v | None \<Rightarrow> dflt)"

text \<open>The loop body of \<open>RedisSessionStore._deserialize\<close>.\<close>

definition deserialize_message :: "json \<Rightarrow> exn + message" where
  "deserialize_message msg_data =
     (case msg_data of
        JObj kvs \<Rightarrow>
          (let msg_type = get_default kvs ''type'' (JStr ''HumanMessage'');
               content = get_default kvs ''content'' (JStr []);
               kwargs = get_default kvs ''additional_kwargs'' (JObj [])
           in if msg_type = JStr ''HumanMessage''
              then construct content kwargs (HumanMessage content kwargs)
              else if msg_type = JStr ''AIMessage''
              then construct content kwargs (AIMessage content kwargs)
              else if msg_type = JStr ''SystemMessage''
              then construct content kwargs (SystemMessage content kwargs)
              else if msg_type = JStr ''ToolMessage''
              then (case get_default kvs ''tool_call_id'' (JStr []) of
                      JStr tool_call_id \<Rightarrow>
                        construct content kwargs (ToolMessage content tool_call_id kwargs)
                    | _ \<Rightarrow> Inl (ValueError ''validation error''))
              else construct content (JObj []) (HumanMessage content (JObj [])))
      | _ \<Rightarrow> Inl (AttributeError ''object has no attribute get''))"

fun deserialize_messages :: "json list \<Rightarrow> exn + message list" where
  "deserialize_messages [] = Inr []"
| "deserialize_messages (msg_data # rest) =
     (case deserialize_message msg_data of
        Inl e \<Rightarrow> Inl e
      | Inr m \<Rightarrow>
          (case deserialize_messages rest of
             Inl e \<Rightarrow> Inl e
           | Inr ms \<Rightarrow> Inr (m # ms)))"

text \<open>
  What \<open>for msg_data in parsed.get("messages", [])\<close> iterates over: the elements of
  a list, the keys of a dict, the characters of a string; other values are not iterable.
\<close>

definition iterate :: "json \<Rightarrow> exn + json list" where
  "iterate j =
     (case j of
        JArr xs \<Rightarrow> Inr xs
      | JObj kvs \<Rightarrow> Inr (map (\<lambda>kv. JStr (fst kv)) kvs)
      | JStr s \<Rightarrow> Inr (map (\<lambda>c. JStr [c]) s)
      | _ \<Rightarrow> Inl (TypeError ''object is not iterable''))"

definition parse_timestamp :: "(string \<times> json) list \<Rightarrow> string \<Rightarrow> exn + datetime" where
  "parse_timestamp kvs k =
     (case map_of kvs k of
        None \<Rightarrow> Inl (KeyError k)
      | Some (JStr s) \<Rightarrow> fromisoformat s
      | Some _ \<Rightarrow> Inl (TypeError ''fromisoformat: argument must be str''))"

text \<open>\<open>RedisSessionStore._deserialize\<close>.\<close>

definition deserialize :: "string \<Rightarrow> json \<Rightarrow> exn + session" where
  "deserialize sid parsed =
     (case parsed of
        JObj kvs \<Rightarrow>
          (case iterate (get_default kvs ''messages'' (JArr [])) of
             Inl e \<Rightarrow> Inl e
           | Inr items \<Rightarrow>
               (case deserialize_messages items of
                  Inl e \<Rightarrow> Inl e
                | Inr ms \<Rightarrow>
                    (case parse_timestamp kvs ''created_at'' of
                       Inl e \<Rightarrow> Inl e
                     | Inr c \<Rightarrow>
                         (case parse_timestamp kvs ''updated_at'' of
                            Inl e \<Rightarrow> Inl e
                          | Inr u \<Rightarrow>
                              Inr \<lparr>session_id = sid, messages = ms,
                                   metadata = get_default kvs ''metadata'' (JObj []),
                                   created_at = c, updated_at = u\<rparr>))))
      | _ \<Rightarrow> Inl (AttributeError ''object has no attribute get''))"

text \<open>
  \<open>RedisSessionStore.get\<close> on the record found under the key, if any: a record that
  fails to deserialize is treated as no session.
\<close>

definition redis_get :: "string \<Rightarrow> json option \<Rightarrow> session option" where
  "redis_get sid data =
     (case data of
        None \<Rightarrow> None
      | Some parsed \<Rightarrow> (case deserialize sid parsed of Inl e \<Rightarrow> None | Inr s \<Rightarrow> Some s))"

text \<open>The sessions of the round trip: messages of the four stored classes, well-formed.\<close>

fun storable :: "message \<Rightarrow> bool" where
  "storable (OtherMessage _ _ _) = False"
| "storable m = (valid_content (content_of m) \<and> is_obj (additional_kwargs m))"

text \<open>An example session with one message of each class.\<close>

definition example_session :: session where
  "example_session =
     \<lparr>session_id = ''s1'',
      messages =
        [SystemMessage (JStr ''Be brief.'') (JObj []),
         HumanMessage (JArr [JObj [(''type'', JStr ''text''), (''text'', JStr ''weather?'')]])
           (JObj []),
         AIMessage (JStr []) (JObj [(''tool_calls'', JArr [JStr ''call-1''])]),
         ToolMessage (JStr ''sunny'') ''call-1'' (JObj []),
         AIMessage (JStr ''It is sunny.'') (JObj [])],
      metadata = JObj [(''user'', JStr ''ada''), (''turns'', JInt 2)],
      created_at = \<lparr>dt_year = 2025, dt_month = 3, dt_day = 1, dt_hour = 12, dt_minute = 0,
                    dt_second = 5, dt_microsecond = 0\<rparr>,
      updated_at = \<lparr>dt_year = 2025, dt_month = 3, dt_day = 1, dt_hour = 12, dt_minute = 0,
                    dt_second = 9, dt_microsecond = 4200\<rparr>\<rparr>"

section \<open>Properties of the timeout parser\<close>

lemma round_double_small:
  "round_double False 1 = Finite 1"
  "round_double False 2 = Finite 2"
  "round_double False 30 = Finite 30"
  "round_double False 45 = Finite 45"
  "round_double False 120 = Finite 120"
  "round_double False 3600 = Finite 3600"
  by (simp_all add: round_double_def ilog2_def pow2_def round_half_even_def
      bit_length.simps Let_def)

lemmas float_defs = py_float_def strip_def is_space_def split_sign_def split_at_def
  parse_mantissa_def parse_exponent_def is_digitpart_def is_digit_def digits_of_def
  nat_of_digits_def pow10_def lower_def

lemma py_float_small:
  "py_float ''1'' = Some (Finite 1)"
  "py_float ''2'' = Some (Finite 2)"
  "py_float ''30'' = Some (Finite 30)"
  "py_float ''45'' = Some (Finite 45)"
  "py_float ''soon'' = None"
  "py_float ''abc'' = None"
  "py_float ''500m'' = None"
  "py_float [] = None"
  by (simp_all add: float_defs round_double_small)

lemma parse_timeout_30s: "parse_timeout ''30s'' = Inr (Finite 30)"
  by (simp add: parse_timeout_def endswith_def float_or_raise_def py_float_small)

lemma parse_timeout_500ms:
  "parse_timeout ''500ms'' = Inl (ValueError ''could not convert string to float'')"
  by (simp add: parse_timeout_def endswith_def float_or_raise_def py_float_small)

text \<open>
  C9. The timeout parser on the documented inputs: \<open>30s\<close>, \<open>2m\<close>, \<open>1h\<close> and a bare
  number give 30, 120, 3600 and that number of seconds, and a string with no unit suffix
  that is not a number gives the default of 30 seconds. A string that ends in a unit
  letter after something that is not a number does not give the default: the conversion
  raises \<open>ValueError\<close> out of the parser.
\<close>

theorem parse_timeout_cases:
  "parse_timeout ''30s'' = Inr (Finite 30) \<and>
   parse_timeout ''2m'' = Inr (Finite 120) \<and>
   parse_timeout ''1h'' = Inr (Finite 3600) \<and>
   parse_timeout ''45'' = Inr (Finite 45) \<and>
   parse_timeout ''soon'' = Inr (Finite 30) \<and>
   parse_timeout ''abcs'' = Inl (ValueError ''could not convert string to float'') \<and>
   parse_timeout ''s'' = Inl (ValueError ''could not convert string to float'')"
  by (simp add: parse_timeout_def endswith_def float_or_raise_def py_float_small
      round_double_small)

section \<open>Properties of the dispatcher's retry loop\<close>

lemma retryable_failureE:
  assumes "retryable_failure r"
  obtains m t where "r = Inl (ToolAdapterError m t True)"
  using assms
  by (auto simp: retryable_failure_def split: sum.splits exn.splits)

lemma attempts_succeed:
  "nat (mr - i) = d \<Longrightarrow> i \<le> mr \<Longrightarrow>
   \<forall>k. n \<le> k \<and> k < n + d \<longrightarrow> retryable_failure (call k) \<Longrightarrow>
   call (n + d) = Inr v \<Longrightarrow>
   attempts call tn mr [i..mr] le n = (Inr v, Suc (n + d))"
proof (induction d arbitrary: i n le)
  case 0
  then have "i = mr" by simp
  with 0 show ?case by (simp add: upto.simps[of mr mr])
next
  case (Suc d)
  then have lt: "i < mr" by simp
  from Suc.prems have "retryable_failure (call n)" by simp
  then obtain m t where c: "call n = Inl (ToolAdapterError m t True)"
    by (rule retryable_failureE)
  have "attempts call tn mr [i + 1..mr] (Some (ToolAdapterError m t True)) (Suc n)
          = (Inr v, Suc (Suc n + d))"
    using Suc.prems by (intro Suc.IH) auto
  with lt c show ?case by (simp add: upto.simps[of i mr])
qed

lemma attempts_exhaust:
  "nat (mr - i) = d \<Longrightarrow> i \<le> mr \<Longrightarrow>
   \<forall>k. n \<le> k \<and> k \<le> n + d \<longrightarrow> retryable_failure (call k) \<Longrightarrow>
   attempts call tn mr [i..mr] le n = (call (n + d), Suc (n + d))"
proof (induction d arbitrary: i n le)
  case 0
  then have i: "i = mr" by simp
  from 0 have "retryable_failure (call n)" by simp
  then obtain m t where c: "call n = Inl (ToolAdapterError m t True)"
    by (rule retryable_failureE)
  with i show ?case by (simp add: upto.simps[of mr mr])
next
  case (Suc d)
  then have lt: "i < mr" by simp
  from Suc.prems have "retryable_failure (call n)" by simp
  then obtain m t where c: "call n = Inl (ToolAdapterError m t True)"
    by (rule retryable_failureE)
  have "attempts call tn mr [i + 1..mr] (Some (ToolAdapterError m t True)) (Suc n)
          = (call (Suc n + d), Suc (Suc n + d))"
    using Suc.prems by (intro Suc.IH) auto
  with lt c show ?case by (simp add: upto.simps[of i mr])
qed

lemma attempts_nonretryable:
  "0 \<le> mr \<Longrightarrow> call 0 = Inl (ToolAdapterError m t False) \<Longrightarrow>
   attempts call tn mr [0..mr] None 0 = (Inl (ToolAdapterError m t False), 1)"
  by (simp add: upto.simps[of 0 mr])

text \<open>
  C2. A tool whose adapter is registered and whose retry budget is \<open>N\<close>. If the first
  \<open>N\<close> adapter calls fail with a retryable error and call \<open>N + 1\<close> succeeds, \<open>execute\<close>
  returns that result after exactly \<open>N + 1\<close> calls. If the first \<open>N + 1\<close> calls all
  fail with a retryable error, \<open>execute\<close> raises the last of them after exactly
  \<open>N + 1\<close> calls. If the first call fails with an error that is not retryable,
  \<open>execute\<close> raises it after exactly one call.
\<close>

theorem execute_retry_budget:
  assumes "adapters tool_name = Some adapter"
    and "max_retries_of tools_config tool_name = int N"
  shows "((\<forall>k<N. retryable_failure (call k)) \<and> call N = Inr v \<longrightarrow>
            execute tools_config adapters call tool_name = (Inr v, N + 1)) \<and>
         ((\<forall>k\<le>N. retryable_failure (call k)) \<longrightarrow>
            execute tools_config adapters call tool_name = (call N, N + 1)) \<and>
         (call 0 = Inl (ToolAdapterError m t False) \<longrightarrow>
            execute tools_config adapters call tool_name
              = (Inl (ToolAdapterError m t False), 1))"
proof (intro conjI impI)
  assume "(\<forall>k<N. retryable_failure (call k)) \<and> call N = Inr v"
  then have "attempts call tool_name (int N) [0..int N] None 0 = (Inr v, Suc (0 + N))"
    by (intro attempts_succeed) auto
  with assms show "execute tools_config adapters call tool_name = (Inr v, N + 1)"
    by (simp add: execute_def)
next
  assume "\<forall>k\<le>N. retryable_failure (call k)"
  then have "attempts call tool_name (int N) [0..int N] None 0 = (call (0 + N), Suc (0 + N))"
    by (intro attempts_exhaust) auto
  with assms show "execute tools_config adapters call tool_name = (call N, N + 1)"
    by (simp add: execute_def)
next
  assume "call 0 = Inl (ToolAdapterError m t False)"
  then have "attempts call tool_name (int N) [0..int N] None 0
               = (Inl (ToolAdapterError m t False), 1)"
    by (intro attempts_nonretryable) auto
  with assms show "execute tools_config adapters call tool_name
                     = (Inl (ToolAdapterError m t False), 1)"
    by (simp add: execute_def)
qed

lemma create_adapter_30s:
  "h_type h = ''http'' \<Longrightarrow> h_timeout h = ''30s'' \<Longrightarrow>
   create_adapter h = Inr (Some \<lparr>adapter_handler = h, adapter_timeout = Finite 30\<rparr>)"
  by (simp add: create_adapter_def http_tool_adapter_def parse_timeout_30s)

lemma weather_initialize:
  "initialize (Some [weather_handler])
     = (Inr (), [''get_weather'' \<mapsto>
                   \<lparr>adapter_handler = weather_handler, adapter_timeout = Finite 30\<rparr>])"
proof -
  have "create_adapter weather_handler
          = Inr (Some \<lparr>adapter_handler = weather_handler, adapter_timeout = Finite 30\<rparr>)"
    by (rule create_adapter_30s) (simp_all add: weather_handler_def)
  moreover have "tool_name_of weather_handler = ''get_weather''"
    by (simp add: tool_name_of_def weather_handler_def)
  ultimately show ?thesis
    by (simp add: initialize_def adapter_tool_name_def)
qed

lemma weather_registered:
  "snd (initialize (Some [weather_handler])) ''get_weather''
     = Some \<lparr>adapter_handler = weather_handler, adapter_timeout = Finite 30\<rparr>"
  by (simp add: weather_initialize)

lemma weather_budget: "max_retries_of (Some [weather_handler]) ''get_weather'' = int 2"
  by (simp add: max_retries_of_def weather_handler_def)

theorem execute_retry_budget_witness:
  "execute (Some [weather_handler]) (snd (initialize (Some [weather_handler])))
     (\<lambda>k. if k < 2 then timeout_error else Inr 7) ''get_weather'' = (Inr 7, 3) \<and>
   execute (Some [weather_handler]) (snd (initialize (Some [weather_handler])))
     (\<lambda>k. timeout_error) ''get_weather'' = (timeout_error, 3) \<and>
   execute (Some [weather_handler]) (snd (initialize (Some [weather_handler])))
     (\<lambda>k. Inl (ToolAdapterError ''HTTP error 404'' ''get_weather'' False) :: exn + nat)
     ''get_weather'' = (Inl (ToolAdapterError ''HTTP error 404'' ''get_weather'' False), 1)"
proof -
  have rf: "retryable_failure timeout_error"
    by (simp add: retryable_failure_def timeout_error_def)
  note inst = execute_retry_budget [where adapters = "snd (initialize (Some [weather_handler]))"
      and tools_config = "Some [weather_handler]" and tool_name = "''get_weather''"
      and adapter = "\<lparr>adapter_handler = weather_handler, adapter_timeout = Finite 30\<rparr>"
      and N = 2, OF weather_registered weather_budget]
  have a: "execute (Some [weather_handler]) (snd (initialize (Some [weather_handler])))
             (\<lambda>k. if k < 2 then timeout_error else Inr 7) ''get_weather'' = (Inr 7, 3)"
    using inst [where call = "\<lambda>k. if k < 2 then timeout_error else Inr 7" and v = 7,
                THEN conjunct1] rf
    by simp
  have b: "execute (Some [weather_handler]) (snd (initialize (Some [weather_handler])))
             (\<lambda>k. timeout_error) ''get_weather'' = (timeout_error, 3)"
    using inst [where call = "\<lambda>k. timeout_error", THEN conjunct2, THEN conjunct1] rf
    by simp
  have c: "execute (Some [weather_handler]) (snd (initialize (Some [weather_handler])))
             (\<lambda>k. Inl (ToolAdapterError ''HTTP error 404'' ''get_weather'' False) :: exn + nat)
             ''get_weather''
           = (Inl (ToolAdapterError ''HTTP error 404'' ''get_weather'' False), 1)"
    using inst [where call = "\<lambda>k. Inl (ToolAdapterError ''HTTP error 404'' ''get_weather'' False)"
                and m = "''HTTP error 404''" and t = "''get_weather''",
                THEN conjunct2, THEN conjunct2]
    by simp
  from a b c show ?thesis by (intro conjI)
qed

section \<open>Registration names and the retry budget\<close>

lemma get_tool_handler_None_iff:
  "get_tool_handler cfg n = None \<longleftrightarrow>
   (\<forall>g\<in>set cfg. \<forall>t. h_tool g = Some t \<longrightarrow> tool_def_name t \<noteq> n)"
  by (induction cfg) (auto split: option.splits)

lemma get_tool_handler_Some:
  "get_tool_handler cfg n = Some g \<Longrightarrow>
   g \<in> set cfg \<and> (\<exists>t. h_tool g = Some t \<and> tool_def_name t = n)"
  by (induction cfg) (auto split: option.splits if_splits)

lemma create_adapter_cases:
  obtains (unsupported) "h_type g \<noteq> ''http''" "create_adapter g = Inr None"
  | (raises) e where "h_type g = ''http''" "parse_timeout (h_timeout g) = Inl e"
      "create_adapter g = Inl e"
  | (adapter) t where "h_type g = ''http''" "parse_timeout (h_timeout g) = Inr t"
      "create_adapter g = Inr (Some \<lparr>adapter_handler = g, adapter_timeout = t\<rparr>)"
  by (cases "parse_timeout (h_timeout g)")
     (auto simp: create_adapter_def http_tool_adapter_def)

lemma register_all_keeps:
  "m n \<noteq> None \<Longrightarrow> snd (register_all cfg m) n \<noteq> None"
proof (induction cfg arbitrary: m)
  case Nil
  then show ?case by simp
next
  case (Cons g cfg)
  show ?case
  proof (cases g rule: create_adapter_cases)
    case unsupported
    with Cons show ?thesis by simp
  next
    case (raises e)
    with Cons show ?thesis by simp
  next
    case (adapter t)
    with Cons show ?thesis by simp
  qed
qed

lemma register_all_completes_iff:
  "fst (register_all cfg m) = Inr () \<longleftrightarrow>
   (\<forall>g\<in>set cfg. h_type g = ''http'' \<longrightarrow> (\<exists>t. parse_timeout (h_timeout g) = Inr t))"
proof (induction cfg arbitrary: m)
  case Nil
  then show ?case by simp
next
  case (Cons g cfg)
  show ?case
  proof (cases g rule: create_adapter_cases)
    case unsupported
    with Cons show ?thesis by simp
  next
    case (raises e)
    then show ?thesis by auto
  next
    case (adapter t)
    with Cons show ?thesis by simp
  qed
qed

lemma register_all_registers:
  "fst (register_all cfg m) = Inr () \<Longrightarrow> h \<in> set cfg \<Longrightarrow> h_type h = ''http'' \<Longrightarrow>
   snd (register_all cfg m) (tool_name_of h) \<noteq> None"
proof (induction cfg arbitrary: m)
  case Nil
  then show ?case by simp
next
  case (Cons g cfg)
  show ?case
  proof (cases g rule: create_adapter_cases)
    case unsupported
    with Cons.prems have "h \<in> set cfg" by auto
    with Cons unsupported show ?thesis by simp
  next
    case (raises e)
    with Cons.prems show ?thesis by simp
  next
    case (adapter t)
    show ?thesis
    proof (cases "h = g")
      case True
      with adapter show ?thesis
        by (simp add: adapter_tool_name_def register_all_keeps)
    next
      case False
      with Cons.prems have "h \<in> set cfg" by auto
      with Cons adapter show ?thesis by simp
    qed
  qed
qed

lemma register_all_origin:
  "snd (register_all cfg m) n = Some a \<Longrightarrow>
   m n = Some a \<or>
   (adapter_handler a \<in> set cfg \<and> h_type (adapter_handler a) = ''http'' \<and>
    adapter_tool_name a = n \<and>
    parse_timeout (h_timeout (adapter_handler a)) = Inr (adapter_timeout a))"
proof (induction cfg arbitrary: m)
  case Nil
  then show ?case by simp
next
  case (Cons g cfg)
  show ?case
  proof (cases g rule: create_adapter_cases)
    case unsupported
    with Cons.prems have "snd (register_all cfg m) n = Some a" by simp
    from Cons.IH [OF this] show ?thesis by auto
  next
    case (raises e)
    with Cons.prems show ?thesis by simp
  next
    case (adapter t)
    let ?b = "\<lparr>adapter_handler = g, adapter_timeout = t\<rparr>"
    from Cons.prems adapter
    have "snd (register_all cfg (m(adapter_tool_name ?b \<mapsto> ?b))) n = Some a" by simp
    from Cons.IH [OF this] adapter show ?thesis
      by (auto split: if_splits)
  qed
qed

lemma search_initialize:
  "initialize (Some [search_handler])
     = (Inr (), [''search'' \<mapsto>
                   \<lparr>adapter_handler = search_handler, adapter_timeout = Finite 30\<rparr>])"
proof -
  have "create_adapter search_handler
          = Inr (Some \<lparr>adapter_handler = search_handler, adapter_timeout = Finite 30\<rparr>)"
    by (rule create_adapter_30s) (simp_all add: search_handler_def)
  moreover have "tool_name_of search_handler = ''search''"
    by (simp add: tool_name_of_def search_handler_def)
  ultimately show ?thesis
    by (simp add: initialize_def adapter_tool_name_def)
qed

lemma lookup_search_initialize:
  "initialize (Some [lookup_handler, search_handler])
     = (Inr (), [''search'' \<mapsto>
                   \<lparr>adapter_handler = search_handler, adapter_timeout = Finite 30\<rparr>])"
proof -
  have "create_adapter search_handler
          = Inr (Some \<lparr>adapter_handler = search_handler, adapter_timeout = Finite 30\<rparr>)"
    by (rule create_adapter_30s) (simp_all add: search_handler_def)
  moreover have "create_adapter lookup_handler
          = Inr (Some \<lparr>adapter_handler = lookup_handler, adapter_timeout = Finite 30\<rparr>)"
    by (rule create_adapter_30s) (simp_all add: lookup_handler_def)
  moreover have "tool_name_of search_handler = ''search''"
    by (simp add: tool_name_of_def search_handler_def)
  moreover have "tool_name_of lookup_handler = ''search''"
    by (simp add: tool_name_of_def lookup_handler_def)
  ultimately show ?thesis
    by (simp add: initialize_def adapter_tool_name_def)
qed

lemma search_slow_initialize:
  "initialize (Some [search_handler, slow_handler])
     = (Inl (ValueError ''could not convert string to float''),
        [''search'' \<mapsto> \<lparr>adapter_handler = search_handler, adapter_timeout = Finite 30\<rparr>])"
proof -
  have "create_adapter search_handler
          = Inr (Some \<lparr>adapter_handler = search_handler, adapter_timeout = Finite 30\<rparr>)"
    by (rule create_adapter_30s) (simp_all add: search_handler_def)
  moreover have "create_adapter slow_handler
          = Inl (ValueError ''could not convert string to float'')"
    by (simp add: create_adapter_def http_tool_adapter_def slow_handler_def
        parse_timeout_500ms)
  moreover have "tool_name_of search_handler = ''search''"
    by (simp add: tool_name_of_def search_handler_def)
  ultimately show ?thesis
    by (simp add: initialize_def adapter_tool_name_def)
qed

text \<open>
  C10 (amended). A handler of kind \<open>http\<close> that has no tool block. Initialization
  completes exactly when the timeout of every \<open>http\<close> handler of the configuration
  parses; then an adapter of the configuration is registered under the handler's own
  name. When the handler's own timeout does not parse, \<open>initialize\<close> raises and no
  adapter of this handler is in the registry it leaves. \<open>execute\<close> takes the retry
  budget from the first handler whose tool-block name is the executed name. So when no
  handler of the configuration has a tool block with that name, the budget is 0, and
  with an adapter registered under the name a retryable failure of the first call is
  raised after one call, whatever the handler's \<open>retries\<close>; when some handler has such
  a tool block, the budget is that handler's \<open>retries\<close>.
\<close>

theorem budget_without_tool_block:
  assumes "h \<in> set cfg" and "h_tool h = None" and "h_type h = ''http''"
  shows "(fst (initialize (Some cfg)) = Inr () \<longleftrightarrow>
            (\<forall>g\<in>set cfg. h_type g = ''http'' \<longrightarrow>
               (\<exists>t. parse_timeout (h_timeout g) = Inr t))) \<and>
         (fst (initialize (Some cfg)) = Inr () \<longrightarrow>
            (\<exists>a. snd (initialize (Some cfg)) (h_name h) = Some a \<and>
                 adapter_handler a \<in> set cfg \<and> adapter_tool_name a = h_name h)) \<and>
         ((\<exists>e. parse_timeout (h_timeout h) = Inl e) \<longrightarrow>
            (\<exists>e. fst (initialize (Some cfg)) = Inl e) \<and>
            (\<forall>a. snd (initialize (Some cfg)) (h_name h) = Some a \<longrightarrow>
                 adapter_handler a \<noteq> h)) \<and>
         ((\<forall>g\<in>set cfg. \<forall>t. h_tool g = Some t \<longrightarrow> tool_def_name t \<noteq> h_name h) \<longrightarrow>
            max_retries_of (Some cfg) (h_name h) = 0 \<and>
            (snd (initialize (Some cfg)) (h_name h) \<noteq> None \<and>
             retryable_failure (call 0) \<longrightarrow>
               execute (Some cfg) (snd (initialize (Some cfg))) call (h_name h)
                 = (call 0, 1))) \<and>
         (\<forall>g. get_tool_handler cfg (h_name h) = Some g \<longrightarrow>
            g \<in> set cfg \<and> (\<exists>t. h_tool g = Some t \<and> tool_def_name t = h_name h) \<and>
            max_retries_of (Some cfg) (h_name h) = h_retries g)"
proof -
  from assms have n: "tool_name_of h = h_name h"
    by (simp add: tool_name_of_def)
  have init: "initialize (Some cfg) = register_all cfg Map.empty"
    by (simp add: initialize_def)
  have one: "fst (initialize (Some cfg)) = Inr () \<longleftrightarrow>
               (\<forall>g\<in>set cfg. h_type g = ''http'' \<longrightarrow>
                  (\<exists>t. parse_timeout (h_timeout g) = Inr t))"
    unfolding init by (rule register_all_completes_iff)
  have two: "\<exists>a. snd (initialize (Some cfg)) (h_name h) = Some a \<and>
                 adapter_handler a \<in> set cfg \<and> adapter_tool_name a = h_name h"
    if ok: "fst (initialize (Some cfg)) = Inr ()"
  proof -
    from ok assms have "snd (register_all cfg Map.empty) (tool_name_of h) \<noteq> None"
      unfolding init by (intro register_all_registers)
    then obtain a where a: "snd (register_all cfg Map.empty) (h_name h) = Some a"
      using n by auto
    from register_all_origin [OF a]
    have "adapter_handler a \<in> set cfg \<and> adapter_tool_name a = h_name h"
      by simp
    with a show ?thesis by (auto simp: init)
  qed
  have three: "(\<exists>e. fst (initialize (Some cfg)) = Inl e) \<and>
               (\<forall>a. snd (initialize (Some cfg)) (h_name h) = Some a \<longrightarrow>
                    adapter_handler a \<noteq> h)"
    if bad: "\<exists>e. parse_timeout (h_timeout h) = Inl e"
  proof
    from bad assms have "fst (initialize (Some cfg)) \<noteq> Inr ()"
      unfolding one by auto
    then show "\<exists>e. fst (initialize (Some cfg)) = Inl e"
      by (cases "fst (initialize (Some cfg))") auto
    show "\<forall>a. snd (initialize (Some cfg)) (h_name h) = Some a \<longrightarrow> adapter_handler a \<noteq> h"
    proof (intro allI impI)
      fix a
      assume "snd (initialize (Some cfg)) (h_name h) = Some a"
      then have "snd (register_all cfg Map.empty) (h_name h) = Some a"
        by (simp add: init)
      from register_all_origin [OF this]
      have "parse_timeout (h_timeout (adapter_handler a)) = Inr (adapter_timeout a)"
        by simp
      with bad show "adapter_handler a \<noteq> h" by auto
    qed
  qed
  have four: "max_retries_of (Some cfg) (h_name h) = 0 \<and>
              (snd (initialize (Some cfg)) (h_name h) \<noteq> None \<and>
               retryable_failure (call 0) \<longrightarrow>
                 execute (Some cfg) (snd (initialize (Some cfg))) call (h_name h)
                   = (call 0, 1))"
    if none: "\<forall>g\<in>set cfg. \<forall>t. h_tool g = Some t \<longrightarrow> tool_def_name t \<noteq> h_name h"
  proof (intro conjI impI)
    from none have "get_tool_handler cfg (h_name h) = None"
      by (simp add: get_tool_handler_None_iff)
    then show z: "max_retries_of (Some cfg) (h_name h) = 0"
      by (simp add: max_retries_of_def)
    assume r: "snd (initialize (Some cfg)) (h_name h) \<noteq> None \<and> retryable_failure (call 0)"
    then have "attempts call (h_name h) 0 [0..0] None 0 = (call (0 + 0), Suc (0 + 0))"
      by (intro attempts_exhaust) auto
    with r z show "execute (Some cfg) (snd (initialize (Some cfg))) call (h_name h)
                     = (call 0, 1)"
      by (auto simp: execute_def)
  qed
  have five: "g \<in> set cfg \<and> (\<exists>t. h_tool g = Some t \<and> tool_def_name t = h_name h) \<and>
              max_retries_of (Some cfg) (h_name h) = h_retries g"
    if g: "get_tool_handler cfg (h_name h) = Some g" for g
    using get_tool_handler_Some [OF g] g by (simp add: max_retries_of_def)
  from one two three four five show ?thesis by blast
qed

theorem budget_without_tool_block_witness:
  "h_retries search_handler = 5 \<and>
   initialize (Some [search_handler])
     = (Inr (), [''search'' \<mapsto>
                   \<lparr>adapter_handler = search_handler, adapter_timeout = Finite 30\<rparr>]) \<and>
   max_retries_of (Some [search_handler]) ''search'' = 0 \<and>
   execute (Some [search_handler]) (snd (initialize (Some [search_handler])))
     (\<lambda>k. timeout_error) ''search'' = (timeout_error, 1) \<and>
   max_retries_of (Some [lookup_handler, search_handler]) ''search'' = 3 \<and>
   parse_timeout (h_timeout slow_handler)
     = Inl (ValueError ''could not convert string to float'') \<and>
   (\<exists>e. fst (initialize (Some [search_handler, slow_handler])) = Inl e) \<and>
   snd (initialize (Some [search_handler, slow_handler])) ''slow'' = None"
proof -
  have rf: "retryable_failure timeout_error"
    by (simp add: retryable_failure_def timeout_error_def)
  have nm: "h_name search_handler = ''search''" "h_retries lookup_handler = 3"
    "h_tool search_handler = None" "h_type search_handler = ''http''"
    "h_retries search_handler = 5"
    by (simp_all add: search_handler_def lookup_handler_def)
  have sl: "h_name slow_handler = ''slow''" "h_tool slow_handler = None"
    "h_type slow_handler = ''http''"
    "parse_timeout (h_timeout slow_handler)
       = Inl (ValueError ''could not convert string to float'')"
    by (simp_all add: slow_handler_def parse_timeout_500ms)
  have g: "get_tool_handler [lookup_handler, search_handler] ''search'' = Some lookup_handler"
    by (simp add: search_handler_def lookup_handler_def)
  note one = budget_without_tool_block [where h = search_handler and cfg = "[search_handler]"
      and call = "\<lambda>k. timeout_error"]
  note two = budget_without_tool_block [where h = search_handler
      and cfg = "[lookup_handler, search_handler]" and call = "\<lambda>k. timeout_error"]
  note three = budget_without_tool_block [where h = slow_handler
      and cfg = "[search_handler, slow_handler]" and call = "\<lambda>k. timeout_error"]
  have b: "max_retries_of (Some [search_handler]) ''search'' = 0 \<and>
           execute (Some [search_handler]) (snd (initialize (Some [search_handler])))
             (\<lambda>k. timeout_error) ''search'' = (timeout_error, 1)"
    using one [THEN conjunct2, THEN conjunct2, THEN conjunct2, THEN conjunct1] nm rf
    by (simp add: search_initialize)
  have c: "max_retries_of (Some [lookup_handler, search_handler]) ''search'' = 3"
    using two [THEN conjunct2, THEN conjunct2, THEN conjunct2, THEN conjunct2] nm g
    by simp
  have d: "\<exists>e. fst (initialize (Some [search_handler, slow_handler])) = Inl e"
    using three [THEN conjunct2, THEN conjunct2, THEN conjunct1] sl by simp
  have e: "snd (initialize (Some [search_handler, slow_handler])) ''slow'' = None"
    by (simp add: search_slow_initialize)
  from b c d e nm sl search_initialize show ?thesis by simp
qed

text \<open>
  C10 as the specification states it fails when another handler's tool block carries
  the name: initialization completes, the handler without a tool block is registered
  under \<open>search\<close>, and \<open>execute\<close> on \<open>search\<close> runs with the other handler's budget
  of 3, four calls in all.
\<close>

theorem budget_collision_counterexample:
  "h_tool search_handler = None \<and> h_name search_handler = ''search'' \<and>
   h_retries search_handler = 5 \<and>
   initialize (Some [lookup_handler, search_handler])
     = (Inr (), [''search'' \<mapsto>
                   \<lparr>adapter_handler = search_handler, adapter_timeout = Finite 30\<rparr>]) \<and>
   max_retries_of (Some [lookup_handler, search_handler]) ''search'' = 3 \<and>
   execute (Some [lookup_handler, search_handler])
     (snd (initialize (Some [lookup_handler, search_handler])))
     (\<lambda>k. timeout_error) ''search'' = (timeout_error, 4)"
proof -
  have "max_retries_of (Some [lookup_handler, search_handler]) ''search'' = 3"
    by (simp add: max_retries_of_def lookup_handler_def)
  moreover from this
  have "execute (Some [lookup_handler, search_handler])
          (snd (initialize (Some [lookup_handler, search_handler])))
          (\<lambda>k. timeout_error) ''search'' = (timeout_error, 4)"
    by (simp add: execute_def lookup_search_initialize timeout_error_def upto.simps)
  moreover have "h_tool search_handler = None \<and> h_name search_handler = ''search'' \<and>
                 h_retries search_handler = 5"
    by (simp add: search_handler_def)
  ultimately show ?thesis
    by (simp add: lookup_search_initialize)
qed

section \<open>Properties of the bounded in-process store\<close>

lemma lastn_all: "length xs \<le> n \<Longrightarrow> lastn n xs = xs"
  by (simp add: lastn_def)

lemma lastn_snoc: "1 \<le> n \<Longrightarrow> lastn (n - 1) xs @ [x] = lastn n (xs @ [x])"
  by (simp add: lastn_def Suc_diff_le)

lemma evict_lastn: "1 \<le> cap \<Longrightarrow> evict cap xs = Inr (lastn (nat cap - 1) xs)"
proof (induction xs)
  case Nil
  then show ?case by (simp add: lastn_def)
next
  case (Cons x xs)
  show ?case
  proof (cases "int (length (x # xs)) \<ge> cap")
    case True
    then have "length (x # xs) - (nat cap - 1) = Suc (length xs - (nat cap - 1))"
      using Cons.prems by (simp add: Suc_diff_le nat_le_iff)
    with True Cons show ?thesis by (simp add: lastn_def)
  next
    case False
    then have "length (x # xs) \<le> nat cap - 1" by simp
    with False show ?thesis by (simp add: lastn_all del: length_Cons)
  qed
qed

text \<open>
  Cutting a recency order to its last \<open>C\<close> entries before or after a touch makes no
  difference to the last \<open>C\<close> entries.
\<close>

lemma lastn_touch:
  assumes "distinct r" and "1 \<le> C"
  shows "lastn C (touch x (lastn C r)) = lastn C (touch x r)"
proof (cases "length r \<le> C")
  case True
  then show ?thesis by (simp add: lastn_all)
next
  case False
  define p where "p = take (length r - C) r"
  define q where "q = lastn C r"
  have r: "r = p @ q" by (simp add: p_def q_def lastn_def)
  have lq: "length q = C" using False by (simp add: q_def lastn_def)
  from assms r have dq: "distinct q" and disj: "set p \<inter> set q = {}" by auto
  show ?thesis
  proof (cases "x \<in> set q")
    case True
    with disj have "x \<notin> set p" by auto
    then have rp: "removeAll x p = p" by simp
    have len: "length (removeAll x q) = C - 1"
      using True dq lq by (simp add: distinct_remove1_removeAll[symmetric] length_remove1)
    have "lastn C (touch x q) = removeAll x q @ [x]"
      using len assms(2) by (simp add: touch_def lastn_def)
    moreover have "lastn C (touch x r) = removeAll x q @ [x]"
      using len assms(2) by (simp add: touch_def lastn_def r rp)
    ultimately show ?thesis by (simp add: q_def)
  next
    case False
    then have rq: "removeAll x q = q" by simp
    have "lastn C (touch x q) = drop 1 q @ [x]"
      using lq assms(2) by (simp add: touch_def lastn_def rq)
    moreover have "lastn C (touch x r) = drop 1 q @ [x]"
      using lq assms(2) by (simp add: touch_def lastn_def r rq)
    ultimately show ?thesis by (simp add: q_def)
  qed
qed

lemma remdups_snoc: "remdups (xs @ [x]) = touch x (remdups xs)"
  by (induction xs) (auto simp: touch_def)

lemma distinct_lastn: "distinct xs \<Longrightarrow> distinct (lastn n xs)"
  by (simp add: lastn_def)

lemma distinct_touch: "distinct xs \<Longrightarrow> distinct (touch x xs)"
  by (simp add: touch_def distinct_removeAll)

lemma map_fst_od_del: "map fst (od_del k d) = removeAll k (map fst d)"
  by (induction d) (auto simp: od_del_def)

lemma od_del_absent: "k \<notin> fst ` set d \<Longrightarrow> od_del k d = d"
  by (induction d) (auto simp: od_del_def)

lemma map_of_od_del: "map_of (od_del k d) k = None"
  by (simp add: od_del_def map_of_eq_None_iff image_iff)

lemma map_fst_od_set_new: "k \<notin> fst ` set d \<Longrightarrow> map fst (od_set k v d) = map fst d @ [k]"
  by (simp add: od_set_def)

lemma map_of_od_set_new: "k \<notin> fst ` set d \<Longrightarrow> map_of (od_set k v d) k = Some v"
  by (auto simp: od_set_def map_add_def image_iff split: option.splits dest!: map_of_SomeD)

lemma set_lastn_subset: "set (lastn n xs) \<subseteq> set xs"
  by (simp add: lastn_def set_drop_subset)

text \<open>One \<open>save\<close>, with the conditional delete written as a delete.\<close>

lemma store_save_alt:
  "store_save a w =
     (case evict (max_sessions w) (od_del (session_id (heap w a)) (sessions w)) of
        Inl e \<Rightarrow>
          (Inl e, w\<lparr>ticks := Suc (ticks w),
                    heap := (heap w)(a := (heap w a)\<lparr>updated_at := clock w (ticks w)\<rparr>),
                    sessions := []\<rparr>)
      | Inr d' \<Rightarrow>
          (Inr (), w\<lparr>ticks := Suc (ticks w),
                     heap := (heap w)(a := (heap w a)\<lparr>updated_at := clock w (ticks w)\<rparr>),
                     sessions := od_set (session_id (heap w a)) a d'\<rparr>))"
  by (auto simp: store_save_def utcnow_def Let_def od_del_absent split: sum.splits)

text \<open>One \<open>save\<close> on a store with positive capacity.\<close>

lemma store_save_ok:
  assumes "1 \<le> max_sessions w"
  shows "fst (store_save a w) = Inr ()"
    and "stored_ids (snd (store_save a w))
           = lastn (nat (max_sessions w)) (touch (session_id (heap w a)) (stored_ids w))"
    and "map_of (sessions (snd (store_save a w))) (session_id (heap w a)) = Some a"
proof -
  define sid where "sid = session_id (heap w a)"
  define d where "d = od_del sid (sessions w)"
  define d' where "d' = lastn (nat (max_sessions w) - 1) d"
  have ev: "evict (max_sessions w) d = Inr d'"
    using assms by (simp add: evict_lastn d'_def)
  have "set d' \<subseteq> set d" by (simp add: d'_def set_lastn_subset)
  moreover have "sid \<notin> fst ` set d" by (auto simp: d_def od_del_def)
  ultimately have new: "sid \<notin> fst ` set d'" by auto
  have st: "store_save a w =
      (Inr (), (w\<lparr>ticks := Suc (ticks w),
                  heap := (heap w)(a := (heap w a)\<lparr>updated_at := clock w (ticks w)\<rparr>),
                  sessions := od_set sid a d'\<rparr>))"
    using ev by (simp add: store_save_alt sid_def [symmetric] d_def [symmetric])
  show "fst (store_save a w) = Inr ()" by (simp add: st)
  have "map fst d' = lastn (nat (max_sessions w) - 1) (map fst d)"
    by (simp add: d'_def lastn_def drop_map)
  then have "map fst (od_set sid a d')
               = lastn (nat (max_sessions w) - 1) (removeAll sid (stored_ids w)) @ [sid]"
    using new by (simp add: map_fst_od_set_new d_def map_fst_od_del stored_ids_def)
  also have "\<dots> = lastn (nat (max_sessions w)) (touch sid (stored_ids w))"
    using lastn_snoc [of "nat (max_sessions w)" "removeAll sid (stored_ids w)" sid] assms
    by (simp add: touch_def)
  finally show "stored_ids (snd (store_save a w))
      = lastn (nat (max_sessions w)) (touch (session_id (heap w a)) (stored_ids w))"
    by (simp add: st stored_ids_def sid_def)
  show "map_of (sessions (snd (store_save a w))) (session_id (heap w a)) = Some a"
    using new by (simp add: st map_of_od_set_new sid_def [symmetric])
qed

lemma store_save_frame:
  "max_sessions (snd (store_save a w)) = max_sessions w"
  "ttl_seconds (snd (store_save a w)) = ttl_seconds w"
  "clock (snd (store_save a w)) = clock w"
  "session_id (heap (snd (store_save a w)) b) = session_id (heap w b)"
  "messages (heap (snd (store_save a w)) b) = messages (heap w b)"
  by (auto simp: store_save_alt split: sum.splits)

lemma save_all_snoc:
  "save_all (as @ [a]) w =
     (case save_all as w of
        (Inl e, w') \<Rightarrow> (Inl e, w')
      | (Inr u, w') \<Rightarrow> store_save a w')"
proof (induction as arbitrary: w)
  case Nil
  show ?case by (cases "store_save a w") (auto split: sum.splits)
next
  case (Cons b as)
  show ?case by (cases "store_save b w") (auto simp: Cons.IH split: sum.splits)
qed

lemma save_all_ids:
  assumes "1 \<le> max_sessions w" and "distinct (stored_ids w)"
    and "length (stored_ids w) \<le> nat (max_sessions w)"
  shows "fst (save_all as w) = Inr () \<and>
         stored_ids (snd (save_all as w))
           = lastn (nat (max_sessions w))
               (remdups (stored_ids w @ map (\<lambda>a. session_id (heap w a)) as)) \<and>
         max_sessions (snd (save_all as w)) = max_sessions w \<and>
         (\<forall>b. session_id (heap (snd (save_all as w)) b) = session_id (heap w b))"
proof (induction as rule: rev_induct)
  case Nil
  from assms show ?case by (simp add: lastn_all distinct_remdups_id)
next
  case (snoc a as)
  define w1 where "w1 = snd (save_all as w)"
  define r where "r = remdups (stored_ids w @ map (\<lambda>a. session_id (heap w a)) as)"
  from snoc have ok: "save_all as w = (Inr (), w1)"
    by (simp add: w1_def prod_eq_iff)
  from snoc have ids: "stored_ids w1 = lastn (nat (max_sessions w)) r"
    and cap: "max_sessions w1 = max_sessions w"
    and sid: "\<And>b. session_id (heap w1 b) = session_id (heap w b)"
    by (simp_all add: w1_def r_def)
  have step: "save_all (as @ [a]) w = store_save a w1"
    by (simp add: save_all_snoc ok)
  have c1: "1 \<le> max_sessions w1" using cap assms(1) by simp
  have "stored_ids (snd (store_save a w1))
          = lastn (nat (max_sessions w)) (touch (session_id (heap w a)) (lastn (nat (max_sessions w)) r))"
    using store_save_ok(2) [OF c1, of a] by (simp add: cap sid ids)
  also have "\<dots> = lastn (nat (max_sessions w)) (touch (session_id (heap w a)) r)"
    using assms(1) by (intro lastn_touch) (simp_all add: r_def)
  also have "touch (session_id (heap w a)) r
               = remdups (stored_ids w @ map (\<lambda>a. session_id (heap w a)) (as @ [a]))"
    using remdups_snoc [of "stored_ids w @ map (\<lambda>a. session_id (heap w a)) as"]
    by (simp add: r_def)
  finally show ?case
    using store_save_ok(1) [OF c1, of a]
    by (simp add: step store_save_frame cap sid)
qed

text \<open>A store without room: every \<open>save\<close> raises and leaves the dict empty.\<close>

lemma evict_no_room: "cap \<le> 0 \<Longrightarrow> evict cap xs = Inl (KeyError ''dictionary is empty'')"
  by (induction xs) simp_all

lemma store_save_no_room:
  assumes "max_sessions w \<le> 0"
  shows "fst (store_save a w) = Inl (KeyError ''dictionary is empty'')"
    and "stored_ids (snd (store_save a w)) = []"
  using assms by (simp_all add: store_save_alt evict_no_room stored_ids_def)

lemma save_all_no_room:
  assumes "max_sessions w \<le> 0" and "stored_ids w = []"
  shows "stored_ids (snd (save_all as w)) = []"
proof (cases as)
  case Nil
  with assms show ?thesis by simp
next
  case (Cons a rest)
  from store_save_no_room [OF assms(1), of a] Cons show ?thesis
    by (cases "store_save a w") simp
qed

lemma store_get_absent: "sid \<notin> set (stored_ids w) \<Longrightarrow> store_get sid w = (None, w)"
  by (simp add: store_get_def stored_ids_def map_of_eq_None_iff [symmetric])

lemma expired_ticks [simp]: "expired (w\<lparr>ticks := t\<rparr>) now a = expired w now a"
  by (simp add: expired_def)

lemma map_fst_move_to_end:
  "map_of d k = Some v \<Longrightarrow> map fst (od_move_to_end k d) = touch k (map fst d)"
  by (simp add: od_move_to_end_def map_fst_od_del touch_def)

lemma store_get_hit:
  assumes "map_of (sessions w) sid = Some a" and "\<not> expired w (clock w (ticks w)) a"
  shows "fst (store_get sid w) = Some a"
    and "stored_ids (snd (store_get sid w)) = touch sid (stored_ids w)"
  using assms
  by (simp_all add: store_get_def utcnow_def stored_ids_def map_fst_move_to_end)

lemma store_get_expired:
  assumes "map_of (sessions w) sid = Some a" and "expired w (clock w (ticks w)) a"
  shows "fst (store_get sid w) = None"
    and "stored_ids (snd (store_get sid w)) = removeAll sid (stored_ids w)"
  using assms
  by (simp_all add: store_get_def utcnow_def stored_ids_def map_fst_od_del)

lemma store_get_promotes:
  "fst (store_get sid w) \<noteq> None \<Longrightarrow>
   stored_ids (snd (store_get sid w)) = touch sid (stored_ids w)"
  by (auto simp: store_get_def utcnow_def stored_ids_def map_fst_move_to_end Let_def
      split: option.splits if_splits)

lemma store_get_Some_stored:
  "fst (store_get sid w) \<noteq> None \<Longrightarrow> sid \<in> set (stored_ids w)"
  by (cases "sid \<in> set (stored_ids w)") (simp_all add: store_get_absent)

text \<open>
  C3. A store whose ids are distinct and within its capacity \<open>C\<close> (as in every store
  built by its own operations, the fresh one included). After any sequence of saves the
  store holds exactly the last \<open>C\<close> ids of the recency order, in that order: the
  order of last use over the ids held before and the ids saved, each id once. With
  positive capacity no save raises. An id outside the ids held is absent to \<open>get\<close>;
  an id among them is returned by \<open>get\<close> unless its time-to-live has run out. A
  single save cuts from the least-recently-used end after moving its id to the
  most-recently-used end, and a successful \<open>get\<close> moves its id to the
  most-recently-used end.
\<close>

theorem lru_eviction:
  assumes "distinct (stored_ids w)"
    and "length (stored_ids w) \<le> nat (max_sessions w)"
  shows "(1 \<le> max_sessions w \<longrightarrow> fst (save_all as w) = Inr ()) \<and>
         stored_ids (snd (save_all as w))
           = lastn (nat (max_sessions w))
               (remdups (stored_ids w @ map (\<lambda>a. session_id (heap w a)) as)) \<and>
         (\<forall>sid. sid \<notin> set (stored_ids (snd (save_all as w))) \<longrightarrow>
                fst (store_get sid (snd (save_all as w))) = None) \<and>
         (\<forall>sid b. map_of (sessions (snd (save_all as w))) sid = Some b \<and>
                  \<not> expired (snd (save_all as w))
                      (clock (snd (save_all as w)) (ticks (snd (save_all as w)))) b \<longrightarrow>
                fst (store_get sid (snd (save_all as w))) = Some b) \<and>
         stored_ids (snd (store_save a w))
           = lastn (nat (max_sessions w)) (touch (session_id (heap w a)) (stored_ids w)) \<and>
         (\<forall>sid. fst (store_get sid w) \<noteq> None \<longrightarrow>
                stored_ids (snd (store_get sid w)) = touch sid (stored_ids w))"
proof (intro conjI allI impI)
  assume "1 \<le> max_sessions w"
  from save_all_ids [OF this assms, of as]
  show "fst (save_all as w) = Inr ()" by simp
next
  show "stored_ids (snd (save_all as w))
          = lastn (nat (max_sessions w))
              (remdups (stored_ids w @ map (\<lambda>a. session_id (heap w a)) as))"
  proof (cases "1 \<le> max_sessions w")
    case True
    from save_all_ids [OF this assms, of as] show ?thesis by simp
  next
    case False
    with assms(2) have "stored_ids w = []" by simp
    with False show ?thesis by (simp add: save_all_no_room lastn_def)
  qed
next
  show "stored_ids (snd (store_save a w))
          = lastn (nat (max_sessions w)) (touch (session_id (heap w a)) (stored_ids w))"
  proof (cases "1 \<le> max_sessions w")
    case True
    then show ?thesis by (rule store_save_ok(2))
  next
    case False
    then show ?thesis by (simp add: store_save_no_room lastn_def)
  qed
next
  fix sid
  assume "sid \<notin> set (stored_ids (snd (save_all as w)))"
  then show "fst (store_get sid (snd (save_all as w))) = None"
    by (simp add: store_get_absent)
next
  fix sid b
  assume "map_of (sessions (snd (save_all as w))) sid = Some b \<and>
          \<not> expired (snd (save_all as w))
              (clock (snd (save_all as w)) (ticks (snd (save_all as w)))) b"
  then show "fst (store_get sid (snd (save_all as w))) = Some b"
    by (simp add: store_get_hit(1))
next
  fix sid
  assume "fst (store_get sid w) \<noteq> None"
  then show "stored_ids (snd (store_get sid w)) = touch sid (stored_ids w)"
    by (rule store_get_promotes)
qed

theorem lru_eviction_witness:
  "fst (save_all [0, 1, 2, 3] four_sessions) = Inr () \<and>
   stored_ids (snd (save_all [0, 1, 2, 3] four_sessions))
     = [''session-1'', ''session-2'', ''session-3''] \<and>
   fst (store_get ''session-0'' (snd (save_all [0, 1, 2, 3] four_sessions))) = None \<and>
   fst (store_get ''session-1'' (snd (save_all [0, 1, 2, 3] four_sessions))) = Some 1 \<and>
   stored_ids (snd (store_get ''session-0'' two_stored)) = [''session-1'', ''session-0'']"
proof -
  have h: "distinct (stored_ids four_sessions)"
    "length (stored_ids four_sessions) \<le> nat (max_sessions four_sessions)"
    by (simp_all add: four_sessions_def init_world_def stored_ids_def)
  have room: "1 \<le> max_sessions four_sessions"
    by (simp add: four_sessions_def init_world_def)
  note inst = lru_eviction [OF h, of "[0, 1, 2, 3]"]
  have ok: "fst (save_all [0, 1, 2, 3] four_sessions) = Inr ()"
    using inst room by blast
  have order: "lastn (nat (max_sessions four_sessions))
                 (remdups (stored_ids four_sessions @
                    map (\<lambda>a. session_id (heap four_sessions a)) [0, 1, 2, 3]))
               = [''session-1'', ''session-2'', ''session-3'']"
    by (simp add: four_sessions_def init_world_def stored_ids_def named_session_def
        session_name_def lastn_def)
  have ids: "stored_ids (snd (save_all [0, 1, 2, 3] four_sessions))
               = [''session-1'', ''session-2'', ''session-3'']"
    using inst order by simp
  have absent: "fst (store_get ''session-0'' (snd (save_all [0, 1, 2, 3] four_sessions))) = None"
    using inst ids by simp
  have live: "map_of (sessions (snd (save_all [0, 1, 2, 3] four_sessions))) ''session-1'' = Some 1 \<and>
              \<not> expired (snd (save_all [0, 1, 2, 3] four_sessions))
                  (clock (snd (save_all [0, 1, 2, 3] four_sessions))
                     (ticks (snd (save_all [0, 1, 2, 3] four_sessions)))) 1"
    by (simp add: four_sessions_def init_world_def store_save_alt od_del_def od_set_def
        expired_def named_session_def session_name_def blank_session_def second_clock_def
        micros_def toordinal_def days_before_year_def days_before_month_def is_leap_def)
  have hit: "fst (store_get ''session-1'' (snd (save_all [0, 1, 2, 3] four_sessions))) = Some 1"
    using inst live by blast
  have h2: "distinct (stored_ids two_stored)"
    "length (stored_ids two_stored) \<le> nat (max_sessions two_stored)"
    by (simp_all add: two_stored_def stored_ids_def)
  have got: "fst (store_get ''session-0'' two_stored) \<noteq> None"
    by (simp add: two_stored_def store_get_def utcnow_def expired_def named_session_def
        session_name_def blank_session_def second_clock_def micros_def toordinal_def
        days_before_year_def days_before_month_def is_leap_def)
  have "stored_ids (snd (store_get ''session-0'' two_stored))
          = touch ''session-0'' (stored_ids two_stored)"
    using lru_eviction [OF h2, of "[]"] got by blast
  then have promoted: "stored_ids (snd (store_get ''session-0'' two_stored))
                         = [''session-1'', ''session-0'']"
    by (simp add: two_stored_def stored_ids_def touch_def)
  from ok ids absent hit promoted show ?thesis by simp
qed

section \<open>Lazy expiry\<close>

lemma evict_subset: "evict cap xs = Inr ys \<Longrightarrow> set ys \<subseteq> set xs"
  by (induction xs) (auto split: if_splits)

lemma set_od_del_subset: "set (od_del k d) \<subseteq> set d"
  by (auto simp: od_del_def)

lemma fst_od_set: "fst ` set (od_set k v d) \<subseteq> insert k (fst ` set d)"
  by (auto simp: od_set_def split: if_splits)

lemma store_save_ids_subset:
  "set (stored_ids (snd (store_save a w))) \<subseteq> insert (session_id (heap w a)) (set (stored_ids w))"
proof -
  define d where "d = od_del (session_id (heap w a)) (sessions w)"
  have d: "set d \<subseteq> set (sessions w)"
    using set_od_del_subset by (auto simp: d_def)
  show ?thesis
  proof (cases "evict (max_sessions w) d")
    case (Inl e)
    then show ?thesis
      by (simp add: store_save_alt stored_ids_def d_def [symmetric])
  next
    case (Inr d')
    with evict_subset d have "set d' \<subseteq> set (sessions w)" by blast
    then have "fst ` set (od_set (session_id (heap w a)) a d')
                 \<subseteq> insert (session_id (heap w a)) (fst ` set (sessions w))"
      using fst_od_set [of "session_id (heap w a)" a d'] by auto
    with Inr show ?thesis
      by (simp add: store_save_alt stored_ids_def d_def [symmetric])
  qed
qed

lemma fold_od_del_subset: "set (fold od_del ks d) \<subseteq> set d"
proof (induction ks arbitrary: d)
  case Nil
  show ?case by simp
next
  case (Cons k ks)
  have "set (fold od_del ks (od_del k d)) \<subseteq> set (od_del k d)" by (rule Cons.IH)
  with set_od_del_subset [of k d] show ?case by auto
qed

lemma store_get_ids_subset: "set (stored_ids (snd (store_get sid' w))) \<subseteq> set (stored_ids w)"
  by (force simp: store_get_def utcnow_def Let_def stored_ids_def od_del_def od_move_to_end_def
      split: option.splits if_splits dest!: map_of_SomeD)

lemma run_op_absent:
  assumes "sid \<notin> set (stored_ids w)" and "\<not> saves_id w sid op"
  shows "sid \<notin> set (stored_ids (run_op op w))"
proof (cases op)
  case (Get x)
  with assms store_get_ids_subset [of x w] show ?thesis by auto
next
  case (Save a)
  with assms store_save_ids_subset [of a w] show ?thesis by auto
next
  case (Delete x)
  with assms set_od_del_subset [of x "sessions w"] show ?thesis
    by (auto simp: store_delete_def stored_ids_def)
next
  case Cleanup
  with assms show ?thesis
    using fold_od_del_subset
    by (fastforce simp: cleanup_expired_def utcnow_def Let_def stored_ids_def)
qed

lemma run_op_session_id: "session_id (heap (run_op op w) b) = session_id (heap w b)"
  by (cases op)
     (auto simp: store_get_def store_save_alt store_delete_def cleanup_expired_def utcnow_def
        Let_def split: option.splits sum.splits)

lemma saves_id_run_op: "saves_id (run_op op w) sid op' = saves_id w sid op'"
  by (cases op') (simp_all add: run_op_session_id)

lemma run_ops_absent:
  assumes "sid \<notin> set (stored_ids w)" and "list_all (\<lambda>op. \<not> saves_id w sid op) ops"
  shows "sid \<notin> set (stored_ids (fold run_op ops w))"
  using assms
proof (induction ops arbitrary: w)
  case Nil
  then show ?case by simp
next
  case (Cons op ops)
  then have "sid \<notin> set (stored_ids (run_op op w))"
    by (simp add: run_op_absent)
  moreover from Cons.prems have "list_all (\<lambda>op'. \<not> saves_id (run_op op w) sid op') ops"
    by (simp add: saves_id_run_op)
  ultimately show ?case using Cons.IH by simp
qed

text \<open>
  C8. An id present in the store whose session has \<open>now - updated_at > ttl\<close> at the
  time of a \<open>get\<close>: the \<open>get\<close> returns absent and removes the entry, and after any
  further store calls among which no \<open>save\<close> carries that id, \<open>get\<close> on the id
  still returns absent.
\<close>

theorem expired_get_absent:
  assumes "map_of (sessions w) sid = Some a"
    and "micros (clock w (ticks w)) - micros (updated_at (heap w a)) > ttl_seconds w * 1000000"
  shows "fst (store_get sid w) = None \<and>
         sid \<notin> set (stored_ids (snd (store_get sid w))) \<and>
         (list_all (\<lambda>op. \<not> saves_id w sid op) ops \<longrightarrow>
            fst (store_get sid (fold run_op ops (snd (store_get sid w)))) = None)"
proof (intro conjI impI)
  from assms have ex: "expired w (clock w (ticks w)) a"
    by (simp add: expired_def)
  from store_get_expired [OF assms(1) ex]
  show "fst (store_get sid w) = None"
    and gone: "sid \<notin> set (stored_ids (snd (store_get sid w)))"
    by simp_all
  assume "list_all (\<lambda>op. \<not> saves_id w sid op) ops"
  then have "list_all (\<lambda>op. \<not> saves_id (snd (store_get sid w)) sid op) ops"
    using saves_id_run_op [of "Get sid" w sid] by simp
  with gone have "sid \<notin> set (stored_ids (fold run_op ops (snd (store_get sid w))))"
    by (rule run_ops_absent)
  then show "fst (store_get sid (fold run_op ops (snd (store_get sid w)))) = None"
    by (simp add: store_get_absent)
qed

theorem expired_get_absent_witness:
  "fst (store_get ''session-0'' stale_world) = None \<and>
   stored_ids (snd (store_get ''session-0'' stale_world)) = [] \<and>
   fst (store_get ''session-0''
          (fold run_op [Get ''session-0'', Cleanup, Delete ''session-1'']
             (snd (store_get ''session-0'' stale_world)))) = None"
proof -
  have h1: "map_of (sessions stale_world) ''session-0'' = Some 0"
    by (simp add: stale_world_def)
  have h2: "micros (clock stale_world (ticks stale_world))
              - micros (updated_at (heap stale_world 0)) > ttl_seconds stale_world * 1000000"
    by code_simp
  have h3: "list_all (\<lambda>op. \<not> saves_id stale_world ''session-0'' op)
              [Get ''session-0'', Cleanup, Delete ''session-1'']"
    by simp
  have ids: "stored_ids (snd (store_get ''session-0'' stale_world)) = []"
    by code_simp
  from expired_get_absent [OF h1 h2, of "[Get ''session-0'', Cleanup, Delete ''session-1'']"] h3 ids
  show ?thesis by simp
qed

section \<open>Properties of the event loop\<close>

lemma translate_no_terminal:
  "translate ev st = Inr (out, st') \<Longrightarrow> list_all (\<lambda>m. \<not> is_terminal m) out"
  by (cases ev)
     (auto simp: dumps_py_def split: option.splits chunk_content.splits if_splits sum.splits
        pyval.splits json.splits prod.splits)

lemma consume_no_terminal:
  "list_all (\<lambda>m. \<not> is_terminal m) (fst (consume evs raised st))"
proof (induction evs arbitrary: st)
  case Nil
  show ?case by (cases raised) simp_all
next
  case (Cons ev evs)
  show ?case
  proof (cases "translate ev st")
    case (Inl e)
    then show ?thesis by simp
  next
    case (Inr r)
    obtain out st' where r: "r = (out, st')" by (cases r)
    from Inr r have "list_all (\<lambda>m. \<not> is_terminal m) out"
      by (simp add: translate_no_terminal)
    with Inr r Cons.IH [of st'] show ?thesis
      by (cases "consume evs raised st'") simp
  qed
qed


lemma consume_chunks:
  "list_all (\<lambda>s. s \<noteq> []) chunks \<Longrightarrow>
   consume (map (\<lambda>s. OnChatModelStream (Some (Text s))) chunks) raised st
     = (map Chunk chunks,
        case raised of
          None \<Rightarrow> Inr (st\<lparr>final_content := final_content st @ concat chunks\<rparr>)
        | Some e \<Rightarrow> Inl e)"
proof (induction chunks arbitrary: st)
  case Nil
  show ?case by (cases raised) simp_all
next
  case (Cons c chunks)
  then show ?case by (cases raised) simp_all
qed

section \<open>Properties of a turn\<close>

lemma try_body_outs:
  "fst (try_body store env sid content parts md w) = [] \<or>
   (\<exists>events raised.
      fst (try_body store env sid content parts md w) = fst (consume events raised initial_state))"
proof (cases "get_or_create store sid w")
  case (Pair r w1)
  show ?thesis
  proof (cases r)
    case (Inl e)
    with Pair show ?thesis by (simp add: try_body_def)
  next
    case (Inr session)
    show ?thesis
    proof (cases "make_agent env")
      case (Inl e)
      with Pair Inr show ?thesis by (simp add: try_body_def)
    next
      case agent: (Inr agent)
      define w2 where "w2 = add_message session (build_user_message content parts) w1"
      obtain events raised
        where ev: "agent (messages (heap w2 session)) (extract_variables env md) = (events, raised)"
        by (cases "agent (messages (heap w2 session)) (extract_variables env md)")
      have "fst (try_body store env sid content parts md w) = fst (consume events raised initial_state)"
        using Pair Inr agent ev
        by (cases "consume events raised initial_state")
           (auto simp: try_body_def Let_def w2_def [symmetric] split: sum.splits prod.splits)
      then show ?thesis by blast
    qed
  qed
qed

lemma try_body_no_terminal:
  "list_all (\<lambda>m. \<not> is_terminal m) (fst (try_body store env sid content parts md w))"
proof -
  from try_body_outs [of store env sid content parts md w]
  consider "fst (try_body store env sid content parts md w) = []"
    | events raised where
      "fst (try_body store env sid content parts md w) = fst (consume events raised initial_state)"
    by blast
  then show ?thesis by cases (simp_all add: consume_no_terminal)
qed

lemma handle_message_shape:
  "fst (handle_message store env sid content parts md w)
     = fst (try_body store env sid content parts md w) @
       [case fst (snd (try_body store env sid content parts md w)) of
          Inr st \<Rightarrow> Done (final_content st) (total_input_tokens st) (total_output_tokens st)
        | Inl e \<Rightarrow> Error ''HANDLER_ERROR'' (exn_str e)]"
  by (simp add: handle_message_def split: prod.splits sum.splits)

lemma add_message_frame:
  "sessions (add_message a m w) = sessions w"
  "max_sessions (add_message a m w) = max_sessions w"
  "session_id (heap (add_message a m w) b) = session_id (heap w b)"
  "messages (heap (add_message a m w) a) = messages (heap w a) @ [m]"
  by (simp_all add: add_message_def utcnow_def Let_def)

lemma memory_store_save [simp]: "store_save_op memory_store = store_save"
  by (simp add: memory_store_def)

lemma get_or_create_memory:
  "get_or_create memory_store sid w =
     (case store_get sid w of
        (Some a, w1) \<Rightarrow> (Inr a, w1)
      | (None, w1) \<Rightarrow>
          (let (a, w2) = new_session sid w1
           in case store_save a w2 of
                (Inl e, w3) \<Rightarrow> (Inl e, w3)
              | (Inr u, w3) \<Rightarrow> (Inr a, w3)))"
  by (simp add: get_or_create_def memory_store_def split: prod.splits option.splits)

lemma get_or_create_fresh:
  assumes "sid \<notin> set (stored_ids w)" and "1 \<le> max_sessions w"
  shows "fst (get_or_create memory_store sid w) = Inr (next_addr w)"
    and "map_of (sessions (snd (get_or_create memory_store sid w))) sid = Some (next_addr w)"
    and "messages (heap (snd (get_or_create memory_store sid w)) (next_addr w)) = []"
    and "session_id (heap (snd (get_or_create memory_store sid w)) (next_addr w)) = sid"
    and "max_sessions (snd (get_or_create memory_store sid w)) = max_sessions w"
proof -
  define a where "a = next_addr w"
  define w2 where "w2 = snd (new_session sid w)"
  have ns: "new_session sid w = (a, w2)"
    by (simp add: w2_def a_def new_session_def utcnow_def Let_def)
  have w2: "max_sessions w2 = max_sessions w" "session_id (heap w2 a) = sid"
    "messages (heap w2 a) = []"
    by (simp_all add: w2_def a_def new_session_def utcnow_def Let_def)
  from assms(2) w2 have cap: "1 \<le> max_sessions w2" by simp
  from store_save_ok(1) [OF cap, of a]
  have goc: "get_or_create memory_store sid w = (Inr a, snd (store_save a w2))"
    using assms(1)
    by (cases "store_save a w2") (simp add: get_or_create_memory store_get_absent ns)
  show "fst (get_or_create memory_store sid w) = Inr (next_addr w)"
    by (simp add: goc a_def)
  show "map_of (sessions (snd (get_or_create memory_store sid w))) sid = Some (next_addr w)"
    using store_save_ok(3) [OF cap, of a] by (simp add: goc w2 a_def [symmetric])
  show "messages (heap (snd (get_or_create memory_store sid w)) (next_addr w)) = []"
    by (simp add: goc store_save_frame w2 a_def [symmetric])
  show "session_id (heap (snd (get_or_create memory_store sid w)) (next_addr w)) = sid"
    by (simp add: goc store_save_frame w2 a_def [symmetric])
  show "max_sessions (snd (get_or_create memory_store sid w)) = max_sessions w"
    by (simp add: goc store_save_frame w2)
qed

text \<open>
  A turn on a session id the store does not hold, in a store with positive capacity:
  the state after the user message has been appended.
\<close>

lemma turn_start:
  assumes "sid \<notin> set (stored_ids w)" and "1 \<le> max_sessions w"
  shows "get_or_create memory_store sid w = (Inr (next_addr w), snd (get_or_create memory_store sid w))"
    and "map_of (sessions (add_message (next_addr w) um (snd (get_or_create memory_store sid w)))) sid
           = Some (next_addr w)"
    and "messages (heap (add_message (next_addr w) um (snd (get_or_create memory_store sid w))) (next_addr w))
           = [um]"
    and "session_id (heap (add_message (next_addr w) um (snd (get_or_create memory_store sid w))) (next_addr w))
           = sid"
    and "1 \<le> max_sessions (add_message (next_addr w) um (snd (get_or_create memory_store sid w)))"
  using get_or_create_fresh [OF assms] assms(2)
  by (simp_all add: add_message_frame prod_eq_iff)

text \<open>
  A turn on a new session id with room in the store, by the outcome of its event loop:
  the exception that leaves the loop leaves the \<open>try\<close> block; accumulators at the
  stream's end are the block's result, after a save that does not raise.
\<close>

lemma try_body_fails:
  assumes "sid \<notin> set (stored_ids w)" and "1 \<le> max_sessions w"
    and "make_agent env = Inr agent"
    and "agent [build_user_message content parts] (extract_variables env md) = (events, raised)"
    and "consume events raised initial_state = (outs, Inl e)"
  shows "fst (try_body memory_store env sid content parts md w) = outs"
    and "fst (snd (try_body memory_store env sid content parts md w)) = Inl e"
proof -
  define a where "a = next_addr w"
  define um where "um = build_user_message content parts"
  define w1 where "w1 = snd (get_or_create memory_store sid w)"
  define w2 where "w2 = add_message a um w1"
  have start: "get_or_create memory_store sid w = (Inr a, w1)" "messages (heap w2 a) = [um]"
    using turn_start(1) [OF assms(1,2)] turn_start(2-5) [OF assms(1,2), where um = um]
    by (simp_all add: a_def w2_def w1_def)
  have "try_body memory_store env sid content parts md w = (outs, Inl e, w2)"
    using start assms(3,4,5)
    by (simp add: try_body_def Let_def um_def [symmetric] w2_def [symmetric])
  then show "fst (try_body memory_store env sid content parts md w) = outs"
    and "fst (snd (try_body memory_store env sid content parts md w)) = Inl e"
    by simp_all
qed

lemma try_body_completes:
  assumes "sid \<notin> set (stored_ids w)" and "1 \<le> max_sessions w"
    and "make_agent env = Inr agent"
    and "agent [build_user_message content parts] (extract_variables env md) = (events, raised)"
    and "consume events raised initial_state = (outs, Inr st)"
  shows "fst (try_body memory_store env sid content parts md w) = outs"
    and "fst (snd (try_body memory_store env sid content parts md w)) = Inr st"
proof -
  define a where "a = next_addr w"
  define um where "um = build_user_message content parts"
  define w1 where "w1 = snd (get_or_create memory_store sid w)"
  define w2 where "w2 = add_message a um w1"
  define w3 where "w3 = (if final_content st \<noteq> []
                         then add_message a (AIMessage (JStr (final_content st)) (JObj [])) w2
                         else w2)"
  define w4 where "w4 = snd (store_save a w3)"
  have start: "get_or_create memory_store sid w = (Inr a, w1)" "messages (heap w2 a) = [um]"
    "1 \<le> max_sessions w2"
    using turn_start(1) [OF assms(1,2)] turn_start(2-5) [OF assms(1,2), where um = um]
    by (simp_all add: a_def w2_def w1_def)
  have cap3: "1 \<le> max_sessions w3"
    using start(3) by (simp add: w3_def add_message_frame)
  have sv: "store_save a w3 = (Inr (), w4)"
    using store_save_ok(1) [OF cap3, of a] by (simp add: prod_eq_iff w4_def)
  have "try_body memory_store env sid content parts md w = (outs, Inr st, w4)"
  proof (cases "final_content st = []")
    case True
    with sv have "store_save a w2 = (Inr (), w4)" by (simp add: w3_def)
    with True start(1,2) assms(3,4,5) show ?thesis
      by (simp add: try_body_def Let_def um_def [symmetric] w2_def [symmetric])
  next
    case False
    with sv have "store_save a (add_message a (AIMessage (JStr (final_content st)) (JObj [])) w2)
                    = (Inr (), w4)"
      by (simp add: w3_def)
    with False start(1,2) assms(3,4,5) show ?thesis
      by (simp add: try_body_def Let_def um_def [symmetric] w2_def [symmetric])
  qed
  then show "fst (try_body memory_store env sid content parts md w) = outs"
    and "fst (snd (try_body memory_store env sid content parts md w)) = Inr st"
    by simp_all
qed


lemma fresh_world_room:
  "''s1'' \<notin> set (stored_ids fresh_world)" "1 \<le> max_sessions fresh_world"
  by (simp_all add: fresh_world_def init_world_def stored_ids_def)

lemma no_room_world_load:
  "fst (get_or_create memory_store ''s1'' no_room_world) = Inl (KeyError ''dictionary is empty'')"
  by (simp add: get_or_create_memory store_get_def new_session_def store_save_alt utcnow_def
      no_room_world_def init_world_def od_del_def Let_def)

lemma read_only_load: "fst (get_or_create read_only_store ''session-0'' two_stored) = Inr 0"
  by (simp add: get_or_create_def read_only_store_def store_get_def utcnow_def two_stored_def
      expired_def named_session_def session_name_def blank_session_def second_clock_def
      micros_def toordinal_def days_before_year_def days_before_month_def is_leap_def Let_def)

lemma read_only_save:
  "fst (store_save_op read_only_store a w) = Inl (OtherError ''READONLY write refused'')"
  by (simp add: read_only_store_def)

lemma fresh_world_load: "fst (get_or_create memory_store ''s1'' fresh_world) = Inr 0"
  using get_or_create_fresh(1) [OF fresh_world_room]
  by (simp add: fresh_world_def init_world_def)

text \<open>
  C1. Whatever the session store behind the interface, the messages of a turn are the
  messages yielded inside the \<open>try\<close> block,
  none of which is \<open>done\<close> or \<open>error\<close>, followed by exactly one terminal message:
  \<open>done\<close> with the accumulated text and usage when the block completes, \<open>error\<close>
  with the exception's text when an exception leaves it. An exception raised by loading
  the session, by resolving the tools or creating the agent, by the event stream or the
  translation of an event, or by saving the session, each ends the turn with that
  \<open>error\<close>.
\<close>

theorem one_terminal_last:
  "\<exists>body t.
     fst (handle_message store env sid content parts md w) = body @ [t] \<and>
     list_all (\<lambda>m. \<not> is_terminal m) body \<and> is_terminal t \<and>
     (\<forall>st. fst (snd (try_body store env sid content parts md w)) = Inr st \<longrightarrow>
        t = Done (final_content st) (total_input_tokens st) (total_output_tokens st)) \<and>
     (\<forall>e. fst (snd (try_body store env sid content parts md w)) = Inl e \<longrightarrow>
        t = Error ''HANDLER_ERROR'' (exn_str e)) \<and>
     (\<forall>e. fst (get_or_create store sid w) = Inl e \<longrightarrow> t = Error ''HANDLER_ERROR'' (exn_str e)) \<and>
     (\<forall>a e. fst (get_or_create store sid w) = Inr a \<and> make_agent env = Inl e \<longrightarrow>
        t = Error ''HANDLER_ERROR'' (exn_str e)) \<and>
     (\<forall>a agent events raised e.
        fst (get_or_create store sid w) = Inr a \<and> make_agent env = Inr agent \<and>
        agent (messages (heap (add_message a (build_user_message content parts)
                                 (snd (get_or_create store sid w))) a))
              (extract_variables env md) = (events, raised) \<and>
        snd (consume events raised initial_state) = Inl e \<longrightarrow>
        t = Error ''HANDLER_ERROR'' (exn_str e)) \<and>
     (\<forall>a agent events raised st e.
        fst (get_or_create store sid w) = Inr a \<and> make_agent env = Inr agent \<and>
        agent (messages (heap (add_message a (build_user_message content parts)
                                 (snd (get_or_create store sid w))) a))
              (extract_variables env md) = (events, raised) \<and>
        snd (consume events raised initial_state) = Inr st \<and>
        fst (store_save_op store a
               (if final_content st \<noteq> []
                then add_message a (AIMessage (JStr (final_content st)) (JObj []))
                       (add_message a (build_user_message content parts)
                          (snd (get_or_create store sid w)))
                else add_message a (build_user_message content parts)
                       (snd (get_or_create store sid w)))) = Inl e \<longrightarrow>
        t = Error ''HANDLER_ERROR'' (exn_str e))"
proof -
  define res where "res = fst (snd (try_body store env sid content parts md w))"
  define t where "t = (case res of
      Inr st \<Rightarrow> Done (final_content st) (total_input_tokens st) (total_output_tokens st)
    | Inl e \<Rightarrow> Error ''HANDLER_ERROR'' (exn_str e))"
  have shape: "fst (handle_message store env sid content parts md w)
                 = fst (try_body store env sid content parts md w) @ [t]"
    by (simp add: handle_message_shape t_def res_def)
  have tm: "is_terminal t" by (cases res) (simp_all add: t_def)
  have ok: "\<And>st. res = Inr st \<Longrightarrow>
              t = Done (final_content st) (total_input_tokens st) (total_output_tokens st)"
    and err: "\<And>e. res = Inl e \<Longrightarrow> t = Error ''HANDLER_ERROR'' (exn_str e)"
    by (simp_all add: t_def)
  have load: "\<And>e. fst (get_or_create store sid w) = Inl e \<Longrightarrow> res = Inl e"
    by (auto simp: res_def try_body_def split: prod.splits sum.splits)
  have create: "\<And>a e. fst (get_or_create store sid w) = Inr a \<Longrightarrow> make_agent env = Inl e \<Longrightarrow>
                  res = Inl e"
    by (auto simp: res_def try_body_def Let_def split: prod.splits sum.splits)
  have stream: "\<And>a agent events raised e.
      fst (get_or_create store sid w) = Inr a \<Longrightarrow> make_agent env = Inr agent \<Longrightarrow>
      agent (messages (heap (add_message a (build_user_message content parts)
                               (snd (get_or_create store sid w))) a))
            (extract_variables env md) = (events, raised) \<Longrightarrow>
      snd (consume events raised initial_state) = Inl e \<Longrightarrow> res = Inl e"
    by (auto simp: res_def try_body_def Let_def split: prod.splits sum.splits)
  have save: "\<And>a agent events raised st e.
      fst (get_or_create store sid w) = Inr a \<Longrightarrow> make_agent env = Inr agent \<Longrightarrow>
      agent (messages (heap (add_message a (build_user_message content parts)
                               (snd (get_or_create store sid w))) a))
            (extract_variables env md) = (events, raised) \<Longrightarrow>
      snd (consume events raised initial_state) = Inr st \<Longrightarrow>
      fst (store_save_op store a
             (if final_content st \<noteq> []
              then add_message a (AIMessage (JStr (final_content st)) (JObj []))
                     (add_message a (build_user_message content parts)
                        (snd (get_or_create store sid w)))
              else add_message a (build_user_message content parts)
                     (snd (get_or_create store sid w)))) = Inl e \<Longrightarrow> res = Inl e"
    by (auto simp: res_def try_body_def Let_def split: prod.splits sum.splits)
  show ?thesis
    unfolding res_def [symmetric]
    by (rule exI [of _ "fst (try_body store env sid content parts md w)"], rule exI [of _ t])
       (use shape tm ok err load create stream save
            try_body_no_terminal [of store env sid content parts md w] in blast)
qed

theorem one_terminal_last_witness:
  "(\<exists>body. fst (handle_message memory_store failing_env ''s1'' (Some ''hello'') None [] fresh_world)
             = body @ [Error ''HANDLER_ERROR'' ''boom''] \<and>
           list_all (\<lambda>m. \<not> is_terminal m) body) \<and>
   (\<exists>body. fst (handle_message memory_store greeting_env ''s1'' (Some ''hello'') None [] fresh_world)
             = body @ [Done ''Hi there'' 5 3] \<and>
           list_all (\<lambda>m. \<not> is_terminal m) body) \<and>
   (\<exists>body. fst (handle_message memory_store greeting_env ''s1'' (Some ''hello'') None [] no_room_world)
             = body @ [Error ''HANDLER_ERROR'' (exn_str (KeyError ''dictionary is empty''))] \<and>
           list_all (\<lambda>m. \<not> is_terminal m) body) \<and>
   (\<exists>body. fst (handle_message memory_store broken_env ''s1'' (Some ''hello'') None [] fresh_world)
             = body @ [Error ''HANDLER_ERROR'' ''Prompt not found in pack''] \<and>
           list_all (\<lambda>m. \<not> is_terminal m) body) \<and>
   (\<exists>body. fst (handle_message read_only_store greeting_env ''session-0'' (Some ''hello'') None
                     [] two_stored)
             = body @ [Error ''HANDLER_ERROR'' ''READONLY write refused''] \<and>
           list_all (\<lambda>m. \<not> is_terminal m) body) \<and>
   (\<exists>body. fst (handle_message memory_store opaque_env ''s1'' (Some ''hello'') None [] fresh_world)
             = body @ [Error ''HANDLER_ERROR''
                         ''Object of type ToolMessage is not JSON serializable''] \<and>
           list_all (\<lambda>m. \<not> is_terminal m) body)"
proof (intro conjI)
  define agent :: "message list \<Rightarrow> json \<Rightarrow> event list \<times> exn option"
    where "agent = (\<lambda>history variables.
      ([OnChatModelStream (Some (Text ''Hm'')), OnToolEnd ''run-1'' (Obj ''ToolMessage'')],
       None))"
  have ag: "make_agent opaque_env = Inr agent"
    by (simp add: opaque_env_def agent_def)
  have ev: "agent (messages (heap (add_message 0 (build_user_message (Some ''hello'') None)
                                     (snd (get_or_create memory_store ''s1'' fresh_world))) 0))
                  (extract_variables opaque_env [])
              = ([OnChatModelStream (Some (Text ''Hm'')),
                  OnToolEnd ''run-1'' (Obj ''ToolMessage'')], None)"
    by (simp add: agent_def)
  have c: "snd (consume [OnChatModelStream (Some (Text ''Hm'')),
                         OnToolEnd ''run-1'' (Obj ''ToolMessage'')] None initial_state)
             = Inl (TypeError ''Object of type ToolMessage is not JSON serializable'')"
    by (simp add: dumps_py_def)
  from one_terminal_last [of memory_store opaque_env "''s1''" "Some ''hello''" None "[]" fresh_world]
  obtain body t where bt:
    "fst (handle_message memory_store opaque_env ''s1'' (Some ''hello'') None [] fresh_world) = body @ [t]"
    "list_all (\<lambda>m. \<not> is_terminal m) body"
    and stream: "\<forall>a agent events raised e.
        fst (get_or_create memory_store ''s1'' fresh_world) = Inr a \<and> make_agent opaque_env = Inr agent \<and>
        agent (messages (heap (add_message a (build_user_message (Some ''hello'') None)
                                 (snd (get_or_create memory_store ''s1'' fresh_world))) a))
              (extract_variables opaque_env []) = (events, raised) \<and>
        snd (consume events raised initial_state) = Inl e \<longrightarrow>
        t = Error ''HANDLER_ERROR'' (exn_str e)"
    by blast
  have "t = Error ''HANDLER_ERROR''
              (exn_str (TypeError ''Object of type ToolMessage is not JSON serializable''))"
    by (rule stream [rule_format])
       (intro conjI, rule fresh_world_load, rule ag, rule ev, rule c)
  with bt show "\<exists>body. fst (handle_message memory_store opaque_env ''s1'' (Some ''hello'') None [] fresh_world)
                        = body @ [Error ''HANDLER_ERROR''
                                    ''Object of type ToolMessage is not JSON serializable''] \<and>
                      list_all (\<lambda>m. \<not> is_terminal m) body"
    by auto
next
  have r: "fst (snd (try_body memory_store failing_env ''s1'' (Some ''hello'') None [] fresh_world))
             = Inl (OtherError ''boom'')"
  proof (rule try_body_fails(2) [OF fresh_world_room])
    show "make_agent failing_env
            = Inr (\<lambda>history variables.
                ([OnChatModelStream (Some (Text ''Hi''))], Some (OtherError ''boom'')))"
      by (simp add: failing_env_def)
    show "([OnChatModelStream (Some (Text ''Hi''))], Some (OtherError ''boom''))
            = ([OnChatModelStream (Some (Text ''Hi''))], Some (OtherError ''boom''))"
      by simp
    show "consume [OnChatModelStream (Some (Text ''Hi''))] (Some (OtherError ''boom''))
            initial_state = ([Chunk ''Hi''], Inl (OtherError ''boom''))"
      by simp
  qed
  from one_terminal_last [of memory_store failing_env "''s1''" "Some ''hello''" None "[]" fresh_world]
  obtain body t where
    "fst (handle_message memory_store failing_env ''s1'' (Some ''hello'') None [] fresh_world) = body @ [t]"
    "list_all (\<lambda>m. \<not> is_terminal m) body"
    "\<forall>e. fst (snd (try_body memory_store failing_env ''s1'' (Some ''hello'') None [] fresh_world)) = Inl e
         \<longrightarrow> t = Error ''HANDLER_ERROR'' (exn_str e)"
    by blast
  with r show "\<exists>body. fst (handle_message memory_store failing_env ''s1'' (Some ''hello'') None [] fresh_world)
                        = body @ [Error ''HANDLER_ERROR'' ''boom''] \<and>
                      list_all (\<lambda>m. \<not> is_terminal m) body"
    by auto
next
  have ag: "make_agent greeting_env
            = Inr (\<lambda>history variables.
                ([OnChatModelStream (Some (Text ''Hi'')), OnChatModelStream (Some (Text '' there'')),
                  OnLlmEnd (Some (Some 5, Some 3))], None))"
    by (simp add: greeting_env_def)
  have c: "snd (consume [OnChatModelStream (Some (Text ''Hi'')),
                         OnChatModelStream (Some (Text '' there'')),
                         OnLlmEnd (Some (Some 5, Some 3))] None initial_state)
             = Inr \<lparr>final_content = ''Hi there'', total_input_tokens = 5,
                    total_output_tokens = 3\<rparr>"
    by (simp add: initial_state_def)
  from one_terminal_last [of memory_store greeting_env "''s1''" "Some ''hello''" None "[]" fresh_world]
  obtain body t where bt:
    "fst (handle_message memory_store greeting_env ''s1'' (Some ''hello'') None [] fresh_world) = body @ [t]"
    "list_all (\<lambda>m. \<not> is_terminal m) body"
    "\<forall>st. fst (snd (try_body memory_store greeting_env ''s1'' (Some ''hello'') None [] fresh_world)) = Inr st
          \<longrightarrow> t = Done (final_content st) (total_input_tokens st) (total_output_tokens st)"
    by blast
  have r: "fst (snd (try_body memory_store greeting_env ''s1'' (Some ''hello'') None [] fresh_world))
             = Inr \<lparr>final_content = ''Hi there'', total_input_tokens = 5,
                    total_output_tokens = 3\<rparr>"
  proof (rule try_body_completes(2) [OF fresh_world_room ag])
    show "([OnChatModelStream (Some (Text ''Hi'')), OnChatModelStream (Some (Text '' there'')),
            OnLlmEnd (Some (Some 5, Some 3))], None)
            = ([OnChatModelStream (Some (Text ''Hi'')), OnChatModelStream (Some (Text '' there'')),
                OnLlmEnd (Some (Some 5, Some 3))], None)"
      by simp
    show "consume [OnChatModelStream (Some (Text ''Hi'')), OnChatModelStream (Some (Text '' there'')),
                   OnLlmEnd (Some (Some 5, Some 3))] None initial_state
            = ([Chunk ''Hi'', Chunk '' there''],
               Inr \<lparr>final_content = ''Hi there'', total_input_tokens = 5,
                    total_output_tokens = 3\<rparr>)"
      by (simp add: initial_state_def)
  qed
  with bt show "\<exists>body. fst (handle_message memory_store greeting_env ''s1'' (Some ''hello'') None [] fresh_world)
                        = body @ [Done ''Hi there'' 5 3] \<and>
                      list_all (\<lambda>m. \<not> is_terminal m) body"
    by auto
next
  note r = no_room_world_load
  from one_terminal_last [of memory_store greeting_env "''s1''" "Some ''hello''" None "[]" no_room_world]
  obtain body t where
    "fst (handle_message memory_store greeting_env ''s1'' (Some ''hello'') None [] no_room_world) = body @ [t]"
    "list_all (\<lambda>m. \<not> is_terminal m) body"
    "\<forall>e. fst (get_or_create memory_store ''s1'' no_room_world) = Inl e
         \<longrightarrow> t = Error ''HANDLER_ERROR'' (exn_str e)"
    by blast
  with r show "\<exists>body. fst (handle_message memory_store greeting_env ''s1'' (Some ''hello'') None [] no_room_world)
                        = body @ [Error ''HANDLER_ERROR'' (exn_str (KeyError ''dictionary is empty''))] \<and>
                      list_all (\<lambda>m. \<not> is_terminal m) body"
    by auto
next
  have ag: "make_agent broken_env = Inl (ValueError ''Prompt not found in pack'')"
    by (simp add: broken_env_def)
  from one_terminal_last [of memory_store broken_env "''s1''" "Some ''hello''" None "[]" fresh_world]
  obtain body t where
    "fst (handle_message memory_store broken_env ''s1'' (Some ''hello'') None [] fresh_world) = body @ [t]"
    "list_all (\<lambda>m. \<not> is_terminal m) body"
    "\<forall>a e. fst (get_or_create memory_store ''s1'' fresh_world) = Inr a \<and> make_agent broken_env = Inl e
         \<longrightarrow> t = Error ''HANDLER_ERROR'' (exn_str e)"
    by blast
  with ag fresh_world_load
  show "\<exists>body. fst (handle_message memory_store broken_env ''s1'' (Some ''hello'') None [] fresh_world)
                 = body @ [Error ''HANDLER_ERROR'' ''Prompt not found in pack''] \<and>
               list_all (\<lambda>m. \<not> is_terminal m) body"
    by auto
next
  define agent :: "message list \<Rightarrow> json \<Rightarrow> event list \<times> exn option"
    where "agent = (\<lambda>history variables.
      ([OnChatModelStream (Some (Text ''Hi'')), OnChatModelStream (Some (Text '' there'')),
        OnLlmEnd (Some (Some 5, Some 3))], None))"
  let ?um = "build_user_message (Some ''hello'') None"
  let ?w1 = "snd (get_or_create read_only_store ''session-0'' two_stored)"
  let ?st = "\<lparr>final_content = ''Hi there'', total_input_tokens = 5, total_output_tokens = 3\<rparr>"
  let ?evs = "[OnChatModelStream (Some (Text ''Hi'')), OnChatModelStream (Some (Text '' there'')),
               OnLlmEnd (Some (Some 5, Some 3))]"
  have ag: "make_agent greeting_env = Inr agent"
    by (simp add: greeting_env_def agent_def)
  have ev: "agent (messages (heap (add_message 0 ?um ?w1) 0)) (extract_variables greeting_env [])
              = (?evs, None)"
    by (simp add: agent_def)
  have c: "snd (consume ?evs None initial_state) = Inr ?st"
    by (simp add: initial_state_def)
  have sv: "fst (store_save_op read_only_store 0
                   (if final_content ?st \<noteq> []
                    then add_message 0 (AIMessage (JStr (final_content ?st)) (JObj []))
                           (add_message 0 ?um ?w1)
                    else add_message 0 ?um ?w1)) = Inl (OtherError ''READONLY write refused'')"
    by (rule read_only_save)
  from one_terminal_last [of read_only_store greeting_env "''session-0''" "Some ''hello''" None
         "[]" two_stored]
  obtain body t where bt:
    "fst (handle_message read_only_store greeting_env ''session-0'' (Some ''hello'') None []
            two_stored) = body @ [t]"
    "list_all (\<lambda>m. \<not> is_terminal m) body"
    and save: "\<forall>a agent events raised st e.
        fst (get_or_create read_only_store ''session-0'' two_stored) = Inr a \<and>
        make_agent greeting_env = Inr agent \<and>
        agent (messages (heap (add_message a (build_user_message (Some ''hello'') None)
                                 (snd (get_or_create read_only_store ''session-0'' two_stored))) a))
              (extract_variables greeting_env []) = (events, raised) \<and>
        snd (consume events raised initial_state) = Inr st \<and>
        fst (store_save_op read_only_store a
               (if final_content st \<noteq> []
                then add_message a (AIMessage (JStr (final_content st)) (JObj []))
                       (add_message a (build_user_message (Some ''hello'') None)
                          (snd (get_or_create read_only_store ''session-0'' two_stored)))
                else add_message a (build_user_message (Some ''hello'') None)
                       (snd (get_or_create read_only_store ''session-0'' two_stored)))) = Inl e \<longrightarrow>
        t = Error ''HANDLER_ERROR'' (exn_str e)"
    by blast
  have "t = Error ''HANDLER_ERROR'' (exn_str (OtherError ''READONLY write refused''))"
    by (rule save [rule_format])
       (intro conjI, rule read_only_load, rule ag, rule ev, rule c, rule sv)
  with bt show "\<exists>body. fst (handle_message read_only_store greeting_env ''session-0''
                              (Some ''hello'') None [] two_stored)
                        = body @ [Error ''HANDLER_ERROR'' ''READONLY write refused''] \<and>
                      list_all (\<lambda>m. \<not> is_terminal m) body"
    by auto
qed

section \<open>The two end-to-end scenarios\<close>

text \<open>
  C5. A turn on the in-process store, on a new session id and with room in the store,
  where the agent's stream
  yields text chunks (each non-empty) and then raises: the turn yields one chunk
  message per chunk and then exactly one \<open>error\<close> message with the exception's text,
  and the store then holds the session under its id with the user message as its only
  message.
\<close>

theorem stream_failure_keeps_user_message:
  assumes "sid \<notin> set (stored_ids w)" and "1 \<le> max_sessions w"
    and "make_agent env = Inr agent"
    and "agent [build_user_message content parts] (extract_variables env md)
           = (map (\<lambda>s. OnChatModelStream (Some (Text s))) chunks, Some e)"
    and "list_all (\<lambda>s. s \<noteq> []) chunks"
  shows "fst (handle_message memory_store env sid content parts md w)
           = map Chunk chunks @ [Error ''HANDLER_ERROR'' (exn_str e)] \<and>
         (\<exists>a. map_of (sessions (snd (handle_message memory_store env sid content parts md w))) sid = Some a \<and>
              messages (heap (snd (handle_message memory_store env sid content parts md w)) a)
                = [build_user_message content parts])"
proof -
  define a where "a = next_addr w"
  define w1 where "w1 = snd (get_or_create memory_store sid w)"
  define w2 where "w2 = add_message a (build_user_message content parts) w1"
  have start: "get_or_create memory_store sid w = (Inr a, w1)"
    "map_of (sessions w2) sid = Some a"
    "messages (heap w2 a) = [build_user_message content parts]"
    using turn_start(1) [OF assms(1,2)]
          turn_start(2-5) [OF assms(1,2), where um = "build_user_message content parts"]
    by (simp_all add: a_def w2_def w1_def)
  have c: "consume (map (\<lambda>s. OnChatModelStream (Some (Text s))) chunks) (Some e) initial_state
             = (map Chunk chunks, Inl e)"
    using assms(5) by (simp add: consume_chunks)
  have tb: "try_body memory_store env sid content parts md w = (map Chunk chunks, Inl e, w2)"
    using start(1,3) assms(3,4) c
    by (simp add: try_body_def Let_def w2_def [symmetric])
  then have "handle_message memory_store env sid content parts md w
               = (map Chunk chunks @ [Error ''HANDLER_ERROR'' (exn_str e)], w2)"
    by (simp add: handle_message_def)
  with start(2,3) show ?thesis by simp
qed

theorem stream_failure_keeps_user_message_witness:
  "fst (handle_message memory_store failing_env ''s1'' (Some ''hello'') None [] fresh_world)
     = [Chunk ''Hi'', Error ''HANDLER_ERROR'' ''boom''] \<and>
   (\<exists>a. map_of (sessions (snd (handle_message memory_store failing_env ''s1'' (Some ''hello'') None []
                                 fresh_world))) ''s1'' = Some a \<and>
        messages (heap (snd (handle_message memory_store failing_env ''s1'' (Some ''hello'') None []
                               fresh_world)) a) = [hello_message])"
proof -
  note h = fresh_world_room
  have ag: "make_agent failing_env
              = Inr (\<lambda>history variables.
                  ([OnChatModelStream (Some (Text ''Hi''))], Some (OtherError ''boom'')))"
    by (simp add: failing_env_def)
  from stream_failure_keeps_user_message [OF h ag, where content = "Some ''hello''"
         and parts = None and md = "[]" and chunks = "[''Hi'']" and e = "OtherError ''boom''"]
  show ?thesis by (simp add: build_user_message_def hello_message_def)
qed

text \<open>
  C6. A turn with content \<open>hello\<close> on the in-process store, on a new session id and
  with room in the store, where
  the agent's stream is the text deltas \<open>Hi\<close> and \<open> there\<close> and then the completion
  event with usage 5 in and 3 out: the turn yields exactly the two chunks and then
  \<open>done\<close> with text \<open>Hi there\<close> and usage 5 and 3, and the store then holds the
  session under its id with exactly two messages, the user's \<open>hello\<close> and the
  assistant's \<open>Hi there\<close>.
\<close>

theorem greeting_turn:
  assumes "sid \<notin> set (stored_ids w)" and "1 \<le> max_sessions w"
    and "make_agent env = Inr agent"
    and "agent [HumanMessage (JStr ''hello'') (JObj [])] (extract_variables env md)
           = ([OnChatModelStream (Some (Text ''Hi'')), OnChatModelStream (Some (Text '' there'')),
               OnLlmEnd (Some (Some 5, Some 3))], None)"
  shows "fst (handle_message memory_store env sid (Some ''hello'') None md w)
           = [Chunk ''Hi'', Chunk '' there'', Done ''Hi there'' 5 3] \<and>
         (\<exists>a. map_of (sessions (snd (handle_message memory_store env sid (Some ''hello'') None md w))) sid
                = Some a \<and>
              messages (heap (snd (handle_message memory_store env sid (Some ''hello'') None md w)) a)
                = [HumanMessage (JStr ''hello'') (JObj []),
                   AIMessage (JStr ''Hi there'') (JObj [])])"
proof -
  define a where "a = next_addr w"
  define um where "um = build_user_message (Some ''hello'') None"
  define w1 where "w1 = snd (get_or_create memory_store sid w)"
  define w2 where "w2 = add_message a um w1"
  define w3 where "w3 = add_message a (AIMessage (JStr ''Hi there'') (JObj [])) w2"
  have um: "um = HumanMessage (JStr ''hello'') (JObj [])"
    by (simp add: um_def build_user_message_def)
  have start: "get_or_create memory_store sid w = (Inr a, w1)"
    "map_of (sessions w2) sid = Some a"
    "messages (heap w2 a) = [um]"
    "session_id (heap w2 a) = sid"
    "1 \<le> max_sessions w2"
    using turn_start(1) [OF assms(1,2)] turn_start(2-5) [OF assms(1,2), where um = um]
    by (simp_all add: a_def w2_def w1_def)
  have cap3: "1 \<le> max_sessions w3" and sid3: "session_id (heap w3 a) = sid"
    and m3: "messages (heap w3 a) = [um, AIMessage (JStr ''Hi there'') (JObj [])]"
    using start by (simp_all add: w3_def add_message_frame)
  define w4 where "w4 = snd (store_save a w3)"
  have sv: "store_save a w3 = (Inr (), w4)"
    using store_save_ok(1) [OF cap3, of a] by (simp add: prod_eq_iff w4_def)
  have tb: "try_body memory_store env sid (Some ''hello'') None md w
              = ([Chunk ''Hi'', Chunk '' there''],
                 Inr \<lparr>final_content = ''Hi there'', total_input_tokens = 5,
                      total_output_tokens = 3\<rparr>, w4)"
    using start(1,3) assms(3,4) sv
    by (simp add: try_body_def Let_def um_def [symmetric] w2_def [symmetric] um [symmetric]
                  w3_def [symmetric] initial_state_def)
  then have hm: "handle_message memory_store env sid (Some ''hello'') None md w
               = ([Chunk ''Hi'', Chunk '' there'', Done ''Hi there'' 5 3], w4)"
    by (simp add: handle_message_def)
  have "map_of (sessions w4) sid = Some a"
    using store_save_ok(3) [OF cap3, of a] by (simp add: sid3 w4_def)
  moreover have "messages (heap w4 a)
                   = [HumanMessage (JStr ''hello'') (JObj []),
                      AIMessage (JStr ''Hi there'') (JObj [])]"
    by (simp add: store_save_frame m3 um w4_def)
  ultimately show ?thesis by (simp add: hm)
qed

theorem greeting_turn_witness:
  "fst (handle_message memory_store greeting_env ''s1'' (Some ''hello'') None [] fresh_world)
     = [Chunk ''Hi'', Chunk '' there'', Done ''Hi there'' 5 3] \<and>
   (\<exists>a. map_of (sessions (snd (handle_message memory_store greeting_env ''s1'' (Some ''hello'') None []
                                 fresh_world))) ''s1'' = Some a \<and>
        messages (heap (snd (handle_message memory_store greeting_env ''s1'' (Some ''hello'') None []
                               fresh_world)) a)
          = [HumanMessage (JStr ''hello'') (JObj []), AIMessage (JStr ''Hi there'') (JObj [])])"
proof -
  note h = fresh_world_room
  have ag: "make_agent greeting_env
              = Inr (\<lambda>history variables.
                  ([OnChatModelStream (Some (Text ''Hi'')), OnChatModelStream (Some (Text '' there'')),
                    OnLlmEnd (Some (Some 5, Some 3))], None))"
    by (simp add: greeting_env_def)
  from greeting_turn [OF h ag, where md = "[]"]
  show ?thesis by simp
qed

section \<open>A failing tool call inside a turn\<close>












section \<open>Properties of the external-cache record\<close>


declare dec_nat.simps [simp del]

lemma of_char_digit: "d < 10 \<Longrightarrow> (of_char (char_of (48 + d :: nat)) :: nat) = 48 + d"
  by simp

lemma is_digit_char_of: "d < 10 \<Longrightarrow> is_digit (char_of (48 + d :: nat))"
  by (simp add: is_digit_def)

lemma is_digit_zeros: "list_all is_digit (replicate j CHR ''0'')"
  by (induction j) (simp_all add: is_digit_def)

lemma dec_nat_digits: "list_all is_digit (dec_nat n)"
proof (induction n rule: dec_nat.induct)
  case (1 n)
  show ?case
  proof (cases "n < 10")
    case True
    then show ?thesis by (simp add: dec_nat.simps [of n] is_digit_char_of)
  next
    case False
    with 1 show ?thesis by (simp add: dec_nat.simps [of n] is_digit_char_of)
  qed
qed

lemma nat_of_digits_snoc:
  "nat_of_digits (s @ [c]) = 10 * nat_of_digits s + ((of_char c :: nat) - 48)"
  by (simp add: nat_of_digits_def)

lemma dec_nat_value: "nat_of_digits (dec_nat n) = n"
proof (induction n rule: dec_nat.induct)
  case (1 n)
  show ?case
  proof (cases "n < 10")
    case True
    then show ?thesis by (simp add: dec_nat.simps [of n] nat_of_digits_def)
  next
    case False
    with 1 show ?thesis by (simp add: dec_nat.simps [of n] nat_of_digits_snoc)
  qed
qed

lemma dec_nat_length: "n < 10 ^ k \<Longrightarrow> 0 < k \<Longrightarrow> length (dec_nat n) \<le> k"
proof (induction n arbitrary: k rule: dec_nat.induct)
  case (1 n)
  show ?case
  proof (cases "n < 10")
    case True
    with 1 show ?thesis by (simp add: dec_nat.simps [of n] Suc_leI)
  next
    case False
    obtain j where k: "k = Suc j" using 1 by (cases k) auto
    with False 1 have j: "0 < j" by (cases j) auto
    from 1 k have "n div 10 < 10 ^ j" by (simp add: less_mult_imp_div_less mult.commute)
    with "1.IH" [OF False this j] False k show ?thesis by (simp add: dec_nat.simps [of n])
  qed
qed

lemma dec_nat_nonempty: "dec_nat n \<noteq> []"
  by (simp add: dec_nat.simps [of n])

lemma nat_of_digits_zeros: "nat_of_digits (replicate j CHR ''0'' @ s) = nat_of_digits s"
  by (induction j) (simp_all add: nat_of_digits_def)

lemma pad_props:
  assumes "n < 10 ^ k" and "0 < k"
  shows "length (pad k n) = k" and "digits_val (pad k n) = Some n"
proof -
  from dec_nat_length [OF assms] show "length (pad k n) = k" by (simp add: pad_def)
  have "list_all is_digit (pad k n)"
    by (simp add: pad_def dec_nat_digits is_digit_zeros)
  moreover have "pad k n \<noteq> []" by (simp add: pad_def dec_nat_nonempty)
  ultimately show "digits_val (pad k n) = Some n"
    by (simp add: digits_val_def pad_def nat_of_digits_zeros dec_nat_value)
qed


lemma parse_date_fmt:
  assumes "length y = 4" and "length m = 2" and "length d = 2"
    and "digits_val y = Some yv" and "digits_val m = Some mv" and "digits_val d = Some dv"
  shows "parse_date (y @ ''-'' @ m @ ''-'' @ d) = Some (yv, mv, dv)"
  using assms by (simp add: parse_date_def nth_append)

lemma parse_time_seconds:
  assumes "length h = 2" and "length m = 2" and "length s = 2"
    and "digits_val h = Some hv" and "digits_val m = Some mv" and "digits_val s = Some sv"
  shows "parse_time (h @ '':'' @ m @ '':'' @ s) = Some (hv, mv, sv, 0)"
  using assms by (simp add: parse_time_def nth_append Let_def)

lemma parse_time_micros:
  assumes "length h = 2" and "length m = 2" and "length s = 2" and "length u = 6"
    and "digits_val h = Some hv" and "digits_val m = Some mv" and "digits_val s = Some sv"
    and "digits_val u = Some uv"
  shows "parse_time (h @ '':'' @ m @ '':'' @ s @ ''.'' @ u) = Some (hv, mv, sv, uv)"
  using assms by (simp add: parse_time_def nth_append Let_def)

lemma fromisoformat_fmt:
  assumes "length dstr = 10" and "tstr \<noteq> []"
    and "parse_date dstr = Some (dt_year d, dt_month d, dt_day d)"
    and "parse_time tstr = Some (dt_hour d, dt_minute d, dt_second d, dt_microsecond d)"
    and "valid_datetime d"
  shows "fromisoformat (dstr @ ''T'' @ tstr) = Inr d"
proof -
  have "\<lparr>dt_year = dt_year d, dt_month = dt_month d, dt_day = dt_day d, dt_hour = dt_hour d,
         dt_minute = dt_minute d, dt_second = dt_second d,
         dt_microsecond = dt_microsecond d\<rparr> = d"
    by (cases d) simp
  with assms show ?thesis by (simp add: fromisoformat_def Let_def valid_datetime_def)
qed

lemma days_in_month_le: "1 \<le> m \<Longrightarrow> m \<le> 12 \<Longrightarrow> days_in_month y m \<le> 31"
proof -
  assume "1 \<le> m" and "m \<le> 12"
  then have "m = 1 \<or> m = 2 \<or> m = 3 \<or> m = 4 \<or> m = 5 \<or> m = 6 \<or> m = 7 \<or> m = 8 \<or>
             m = 9 \<or> m = 10 \<or> m = 11 \<or> m = 12"
    by arith
  then show ?thesis
    by (elim disjE) (simp_all add: days_in_month_def)
qed

lemma fromisoformat_isoformat:
  assumes "valid_datetime d"
  shows "fromisoformat (isoformat d) = Inr d"
proof -
  from assms have y: "dt_year d < 10 ^ 4" and m: "dt_month d < 10 ^ 2"
    and h: "dt_hour d < 10 ^ 2" and mi: "dt_minute d < 10 ^ 2" and s: "dt_second d < 10 ^ 2"
    and us: "dt_microsecond d < 10 ^ 6"
    by (simp_all add: valid_datetime_def)
  from assms have "dt_day d \<le> 31"
    using days_in_month_le [of "dt_month d" "dt_year d"] by (simp add: valid_datetime_def)
  then have dd: "dt_day d < 10 ^ 2" by simp
  note p4 = pad_props [OF y] and pm = pad_props [OF m] and pd = pad_props [OF dd]
    and ph = pad_props [OF h] and pmi = pad_props [OF mi] and ps = pad_props [OF s]
    and pus = pad_props [OF us]
  have date: "parse_date (pad 4 (dt_year d) @ ''-'' @ pad 2 (dt_month d) @ ''-'' @ pad 2 (dt_day d))
                = Some (dt_year d, dt_month d, dt_day d)"
    by (rule parse_date_fmt) (simp_all add: p4 pm pd)
  have len: "length (pad 4 (dt_year d) @ ''-'' @ pad 2 (dt_month d) @ ''-'' @ pad 2 (dt_day d)) = 10"
    by (simp add: p4 pm pd)
  show ?thesis
  proof (cases "dt_microsecond d = 0")
    case True
    have "parse_time (pad 2 (dt_hour d) @ '':'' @ pad 2 (dt_minute d) @ '':'' @ pad 2 (dt_second d))
            = Some (dt_hour d, dt_minute d, dt_second d, 0)"
      by (rule parse_time_seconds) (simp_all add: ph pmi ps)
    with True have "parse_time (pad 2 (dt_hour d) @ '':'' @ pad 2 (dt_minute d) @ '':''
                                  @ pad 2 (dt_second d))
            = Some (dt_hour d, dt_minute d, dt_second d, dt_microsecond d)"
      by simp
    from fromisoformat_fmt [OF len _ date this assms] True
    show ?thesis by (simp add: isoformat_def)
  next
    case False
    have "parse_time (pad 2 (dt_hour d) @ '':'' @ pad 2 (dt_minute d) @ '':'' @ pad 2 (dt_second d)
                        @ ''.'' @ pad 6 (dt_microsecond d))
            = Some (dt_hour d, dt_minute d, dt_second d, dt_microsecond d)"
      by (rule parse_time_micros) (simp_all add: ph pmi ps pus)
    from fromisoformat_fmt [OF len _ date this assms] False
    show ?thesis by (simp add: isoformat_def)
  qed
qed

lemma deserialize_message_serialize:
  "storable m \<Longrightarrow> deserialize_message (serialize_message m) = Inr m"
  by (cases m)
     (simp_all add: deserialize_message_def serialize_message_def get_default_def construct_def
        Let_def)

lemma deserialize_messages_serialize:
  "list_all storable ms \<Longrightarrow> deserialize_messages (map serialize_message ms) = Inr ms"
  by (induction ms) (simp_all add: deserialize_message_serialize)

text \<open>
  C7. A session whose messages are human, AI, system or tool messages (well-formed:
  content a string or a list of parts, \<open>additional_kwargs\<close> a dict) and whose
  timestamps are timestamps of the \<open>datetime\<close> class: deserializing its serialized
  record under its id gives back the session itself, so the same messages in the same
  order with their classes, contents, \<open>additional_kwargs\<close> and tool-call ids, the
  same metadata, and the same two timestamps to the microsecond; and \<open>get\<close> on that
  record returns it.
\<close>

theorem redis_round_trip:
  assumes "list_all storable (messages s)"
    and "valid_datetime (created_at s)" and "valid_datetime (updated_at s)"
  shows "deserialize (session_id s) (serialize s) = Inr s \<and>
         redis_get (session_id s) (Some (serialize s)) = Some s"
  using assms
  by (simp add: redis_get_def deserialize_def serialize_def get_default_def iterate_def
      parse_timestamp_def deserialize_messages_serialize fromisoformat_isoformat)

theorem redis_round_trip_witness:
  "deserialize ''s1'' (serialize example_session) = Inr example_session \<and>
   redis_get ''s1'' (Some (serialize example_session)) = Some example_session"
proof -
  have "list_all storable (messages example_session)"
    by (simp add: example_session_def valid_content_def is_obj_def)
  moreover have "valid_datetime (created_at example_session)"
    and "valid_datetime (updated_at example_session)"
    by (simp_all add: example_session_def valid_datetime_def days_in_month_def is_leap_def)
  moreover have "session_id example_session = ''s1''"
    by (simp add: example_session_def)
  ultimately show ?thesis
    using redis_round_trip [of example_session] by simp
qed

end
